theory Spec2Isabelle
  imports Main "HOL-Library.Multiset"
begin

section \<open>The record store of the messaging application\<close>

text \<open>
  The application keeps three JSON files (users, contacts by owner, messages), read and
  rewritten whole by \<^verbatim>\<open>src/lib/data-storage.ts\<close>. The model keeps their contents in one
  record and passes it through every operation. It describes the runs in which reading
  and writing the files succeeds: the source catches and logs a file-system error and
  carries on, which is outside these definitions.

  Strings are HOL strings: a character stands for the UTF-16 code unit of the same
  number, so that the strings of the model are the JavaScript strings whose code units
  are all below 256. A time stamp is stored by the source as the ISO-8601 text of
  \<^verbatim>\<open>new Date().toISOString()\<close> and read back with \<^verbatim>\<open>new Date(s).getTime()\<close>; the model
  keeps the number of milliseconds since the epoch that this text denotes. An optional
  field (\<^verbatim>\<open>status?\<close>, \<^verbatim>\<open>lastSeen?\<close>) is an option.
\<close>

record user =
  u_id :: string
  u_phone :: string
  u_password :: string
  u_name :: string
  u_status :: "string option"
  u_profilePicture :: "string option"
  u_createdAt :: int
  u_updatedAt :: "int option"
  u_lastSeen :: "int option"

record contact =
  c_userId :: string
  c_contactId :: string
  c_addedAt :: int

record message =
  m_id :: string
  m_senderId :: string
  m_receiverId :: string
  m_content :: string
  m_timestamp :: int
  m_read :: bool

record store =
  users :: "user list"
  contacts :: "string \<rightharpoonup> contact list"
  messages :: "message list"

definition empty_store :: store where
  "empty_store = \<lparr>users = [], contacts = Map.empty, messages = []\<rparr>"

subsection \<open>The environment of one request\<close>

text \<open>
  What a request reads from outside the store: the system clock (\<open>clock env k\<close> is the
  \<open>k\<close>-th reading during the request, in milliseconds), the text of
  \<^verbatim>\<open>Math.random().toString(36).substr(2, 9)\<close>, and the two functions of the bcryptjs
  library, which is not part of the repository.
\<close>

record env =
  clock :: "nat \<Rightarrow> int"
  random :: string
  bcrypt_hash :: "string \<Rightarrow> string"
  bcrypt_compare :: "string \<Rightarrow> string \<Rightarrow> bool"

subsection \<open>JavaScript string helpers\<close>

definition digit_char :: "nat \<Rightarrow> char" where
  "digit_char d = ''0123456789'' ! d"

fun digits_of :: "nat \<Rightarrow> string" where
  "digits_of n =
     (if n < 10 then [digit_char n] else digits_of (n div 10) @ [digit_char (n mod 10)])"

declare digits_of.simps [simp del]

definition toString :: "int \<Rightarrow> string" where
  "toString i = (if i < 0 then CHR ''-'' # digits_of (nat (- i)) else digits_of (nat i))"

definition is_digit :: "char \<Rightarrow> bool" where
  "is_digit c = (c \<in> set ''0123456789'')"

definition is_space :: "char \<Rightarrow> bool" where
  \<comment> \<open>the characters that the pattern \<^verbatim>\<open>\s\<close> and \<^verbatim>\<open>trim\<close> treat as white space (the
      white space and line terminators of JavaScript), as far as they lie below 256: tab,
      line feed, vertical tab, form feed, carriage return, space and the no-break space
      U+00A0; the others (U+1680, U+2000 to U+200A, U+2028, U+2029, U+202F, U+205F,
      U+3000, U+FEFF) are not characters of a HOL string\<close>
  "is_space c =
     (c \<in> {CHR 0x09, CHR 0x0A, CHR 0x0B, CHR 0x0C, CHR 0x0D, CHR '' '', CHR 0xA0})"

definition trim :: "string \<Rightarrow> string" where
  "trim s = rev (dropWhile is_space (rev (dropWhile is_space s)))"

definition remove_ws :: "string \<Rightarrow> string" where
  \<comment> \<open>\<^verbatim>\<open>s.replace(/\s+/g, '')\<close>\<close>
  "remove_ws s = filter (\<lambda>c. \<not> is_space c) s"

definition phoneRegex :: "string \<Rightarrow> bool" where
  \<comment> \<open>\<^verbatim>\<open>/^\d{10,15}$/.test(s)\<close>\<close>
  "phoneRegex s = (10 \<le> length s \<and> length s \<le> 15 \<and> list_all is_digit s)"

definition truthy :: "string option \<Rightarrow> bool" where
  \<comment> \<open>a value that is absent (\<^verbatim>\<open>undefined\<close>, \<^verbatim>\<open>null\<close>) or the empty string is falsy\<close>
  "truthy v = (case v of None \<Rightarrow> False | Some s \<Rightarrow> s \<noteq> [])"

fun findIndex :: "('a \<Rightarrow> bool) \<Rightarrow> 'a list \<Rightarrow> nat option" where
  "findIndex P [] = None"
| "findIndex P (x # xs) =
     (if P x then Some 0 else map_option Suc (findIndex P xs))"

definition new_id :: "int \<Rightarrow> string \<Rightarrow> string" where
  \<comment> \<open>\<^verbatim>\<open>Date.now().toString() + Math.random().toString(36).substr(2, 9)\<close>\<close>
  "new_id t r = toString t @ r"

subsection \<open>Message operations\<close>

definition getMessages :: "store \<Rightarrow> message list" where
  "getMessages s = messages s"

definition in_conversation :: "string \<Rightarrow> string \<Rightarrow> message \<Rightarrow> bool" where
  "in_conversation userId1 userId2 m =
     ((m_senderId m = userId1 \<and> m_receiverId m = userId2) \<or>
      (m_senderId m = userId2 \<and> m_receiverId m = userId1))"

definition getConversationMessages :: "string \<Rightarrow> string \<Rightarrow> store \<Rightarrow> message list" where
  \<comment> \<open>\<^verbatim>\<open>Array.prototype.sort\<close> is stable; so is \<open>sort_key\<close>\<close>
  "getConversationMessages userId1 userId2 s =
     sort_key m_timestamp (filter (in_conversation userId1 userId2) (getMessages s))"

definition createMessage ::
  "int \<Rightarrow> string \<Rightarrow> int \<Rightarrow> string \<Rightarrow> string \<Rightarrow> string \<Rightarrow> store \<Rightarrow> message \<times> store" where
  "createMessage t_id r t_stamp senderId receiverId content s =
     (let newMessage = \<lparr>m_id = new_id t_id r, m_senderId = senderId,
            m_receiverId = receiverId, m_content = content, m_timestamp = t_stamp,
            m_read = False\<rparr>
      in (newMessage, s\<lparr>messages := getMessages s @ [newMessage]\<rparr>))"

definition mark_one :: "string \<Rightarrow> string \<Rightarrow> message \<Rightarrow> message" where
  "mark_one userId otherUserId m =
     (if m_senderId m = otherUserId \<and> m_receiverId m = userId \<and> \<not> m_read m
      then m\<lparr>m_read := True\<rparr> else m)"

definition markMessagesAsRead :: "string \<Rightarrow> string \<Rightarrow> store \<Rightarrow> store" where
  "markMessagesAsRead userId otherUserId s =
     s\<lparr>messages := map (mark_one userId otherUserId) (getMessages s)\<rparr>"

subsection \<open>User operations\<close>

definition getUsers :: "store \<Rightarrow> user list" where
  "getUsers s = users s"

definition getUserByPhone :: "store \<Rightarrow> string \<Rightarrow> user option" where
  "getUserByPhone s phone = find (\<lambda>u. u_phone u = phone) (getUsers s)"

definition getUserById :: "store \<Rightarrow> string \<Rightarrow> user option" where
  "getUserById s ident = find (\<lambda>u. u_id u = ident) (getUsers s)"

text \<open>The argument of \<^verbatim>\<open>createUser\<close>: a user without \<^verbatim>\<open>id\<close> and \<^verbatim>\<open>createdAt\<close>.\<close>

record user_fields =
  f_phone :: string
  f_password :: string
  f_name :: string
  f_status :: "string option"
  f_profilePicture :: "string option"
  f_updatedAt :: "int option"
  f_lastSeen :: "int option"

definition phone_password_name :: "string \<Rightarrow> string \<Rightarrow> string \<Rightarrow> user_fields" where
  \<comment> \<open>the object literal \<^verbatim>\<open>{ phone, password, name }\<close> that both callers pass\<close>
  "phone_password_name phone password name =
     \<lparr>f_phone = phone, f_password = password, f_name = name, f_status = None,
      f_profilePicture = None, f_updatedAt = None, f_lastSeen = None\<rparr>"

definition or_empty :: "string option \<Rightarrow> string" where
  \<comment> \<open>\<^verbatim>\<open>x || ''\<close>\<close>
  "or_empty v = (case v of None \<Rightarrow> [] | Some x \<Rightarrow> x)"

definition createUser :: "int \<Rightarrow> string \<Rightarrow> int \<Rightarrow> user_fields \<Rightarrow> store \<Rightarrow> user \<times> store" where
  "createUser t_id r t_created f s =
     (let newUser = \<lparr>u_id = new_id t_id r, u_phone = f_phone f, u_password = f_password f,
            u_name = f_name f, u_status = Some (or_empty (f_status f)),
            u_profilePicture = Some (or_empty (f_profilePicture f)),
            u_createdAt = t_created, u_updatedAt = f_updatedAt f,
            u_lastSeen = f_lastSeen f\<rparr>
      in (newUser, s\<lparr>users := getUsers s @ [newUser]\<rparr>))"

text \<open>
  The second argument of \<^verbatim>\<open>updateUser\<close>: each key may be absent. The type leaves out
  \<^verbatim>\<open>id\<close>, \<^verbatim>\<open>password\<close>, \<^verbatim>\<open>phone\<close> and \<^verbatim>\<open>createdAt\<close>; a key \<^verbatim>\<open>updatedAt\<close> would be overwritten by
  the time stamp that \<^verbatim>\<open>updateUser\<close> writes after the spread, and no caller passes one.
\<close>

record user_updates =
  upd_name :: "string option"
  upd_status :: "string option"
  upd_profilePicture :: "string option"
  upd_lastSeen :: "int option"

definition apply_updates :: "user \<Rightarrow> user_updates \<Rightarrow> int \<Rightarrow> user" where
  \<comment> \<open>\<^verbatim>\<open>{ ...users[userIndex], ...updates, updatedAt: new Date().toISOString() }\<close>\<close>
  "apply_updates u upd t =
     u\<lparr>u_name := (case upd_name upd of None \<Rightarrow> u_name u | Some x \<Rightarrow> x),
       u_status := (case upd_status upd of None \<Rightarrow> u_status u | Some x \<Rightarrow> Some x),
       u_profilePicture :=
         (case upd_profilePicture upd of None \<Rightarrow> u_profilePicture u | Some x \<Rightarrow> Some x),
       u_lastSeen := (case upd_lastSeen upd of None \<Rightarrow> u_lastSeen u | Some x \<Rightarrow> Some x),
       u_updatedAt := Some t\<rparr>"

definition updateUser :: "int \<Rightarrow> string \<Rightarrow> user_updates \<Rightarrow> store \<Rightarrow> user option \<times> store" where
  "updateUser t userId upd s =
     (case findIndex (\<lambda>u. u_id u = userId) (getUsers s) of
        None \<Rightarrow> (None, s)
      | Some userIndex \<Rightarrow>
          (let u' = apply_updates (getUsers s ! userIndex) upd t
           in (Some u', s\<lparr>users := (getUsers s)[userIndex := u']\<rparr>)))"

subsection \<open>Contact operations\<close>

definition getContacts :: "store \<Rightarrow> (string \<rightharpoonup> contact list)" where
  "getContacts s = contacts s"

definition getUserContacts :: "store \<Rightarrow> string \<Rightarrow> contact list" where
  "getUserContacts s userId = (case getContacts s userId of None \<Rightarrow> [] | Some l \<Rightarrow> l)"

definition addContact :: "int \<Rightarrow> string \<Rightarrow> string \<Rightarrow> store \<Rightarrow> store" where
  "addContact t userId contactId s =
     (let l = (case getContacts s userId of None \<Rightarrow> [] | Some l \<Rightarrow> l)
      in if \<not> list_ex (\<lambda>c. c_contactId c = contactId) l
         then s\<lparr>contacts := (getContacts s)(userId \<mapsto>
                  l @ [\<lparr>c_userId = userId, c_contactId = contactId, c_addedAt = t\<rparr>])\<rparr>
         else s)"

section \<open>The HTTP handlers\<close>

text \<open>
  A request body is a JSON object whose fields are strings: a map from field names to
  strings; a handler reads the fields it destructures and no others. The session is the
  id of the user the token names, or nothing. A handler returns the status code, the
  JSON body and the store it leaves.
\<close>

type_synonym json_object = "string \<rightharpoonup> string"

type_synonym session = "string option"

definition the_string :: "string option \<Rightarrow> string" where
  "the_string v = (case v of None \<Rightarrow> [] | Some x \<Rightarrow> x)"

text \<open>A user object without its \<^verbatim>\<open>password\<close> property.\<close>

record public_user =
  p_id :: string
  p_phone :: string
  p_name :: string
  p_status :: "string option"
  p_profilePicture :: "string option"
  p_createdAt :: int
  p_updatedAt :: "int option"
  p_lastSeen :: "int option"

definition withoutPassword :: "user \<Rightarrow> public_user" where
  \<comment> \<open>\<^verbatim>\<open>const { password: _, ...userWithoutPassword } = user\<close>\<close>
  "withoutPassword u =
     \<lparr>p_id = u_id u, p_phone = u_phone u, p_name = u_name u, p_status = u_status u,
      p_profilePicture = u_profilePicture u, p_createdAt = u_createdAt u,
      p_updatedAt = u_updatedAt u, p_lastSeen = u_lastSeen u\<rparr>"

record contact_view =
  v_id :: string
  v_name :: string
  v_phone :: string
  v_status :: string
  v_profilePicture :: string
  v_addedAt :: int
  v_isOnline :: bool
  v_lastSeen :: "int option"

record status_entry =
  s_isOnline :: bool
  s_lastSeen :: "int option"

datatype body =
    ErrorBody string
  | SuccessBody
  | MessageBody message
  | MessagesBody "message list"
  | UserBody public_user
  | ContactUserBody user
  | ContactBody public_user
  | ContactsBody "contact_view list"
  | StatusMapBody "string \<Rightarrow> status_entry option"

text \<open>
  \<open>ContactUserBody u\<close> is \<^verbatim>\<open>{ success: true, contact: u }\<close> with the user object as stored;
  \<open>ContactBody p\<close> is the same with the password property removed.
\<close>

fun body_password :: "body \<Rightarrow> string option" where
  "body_password (ContactUserBody u) = Some (u_password u)"
| "body_password b = None"

type_synonym response = "nat \<times> body"

definition unauthorized :: response where
  "unauthorized = (401, ErrorBody ''Unauthorized'')"

subsection \<open>Messages: \<^verbatim>\<open>src/app/api/messages/route.ts\<close>\<close>

definition GET_messages :: "session \<Rightarrow> string option \<Rightarrow> store \<Rightarrow> response \<times> store" where
  "GET_messages session userIdParam s =
     (if \<not> truthy session then (unauthorized, s)
      else if \<not> truthy userIdParam then ((400, ErrorBody ''User ID is required''), s)
      else (let msgs = getConversationMessages (the_string session) (the_string userIdParam) s;
                s' = markMessagesAsRead (the_string session) (the_string userIdParam) s
            in ((200, MessagesBody msgs), s')))"

definition POST_messages :: "env \<Rightarrow> session \<Rightarrow> json_object \<Rightarrow> store \<Rightarrow> response \<times> store" where
  "POST_messages e session req s =
     (if \<not> truthy session then (unauthorized, s)
      else (let receiverId = req ''receiverId''; content = req ''content''
            in if \<not> truthy receiverId \<or> \<not> truthy content
               then ((400, ErrorBody ''Receiver ID and content are required''), s)
               else (let (msg, s') = createMessage (clock e 0) (random e) (clock e 1)
                           (the_string session) (the_string receiverId)
                           (trim (the_string content)) s
                     in ((201, MessageBody msg), s'))))"

subsection \<open>Presence: \<^verbatim>\<open>src/app/api/users/status/route.ts\<close>\<close>

definition OFFLINE_THRESHOLD :: int where
  "OFFLINE_THRESHOLD = 5 * 60 * 1000"

definition last_seen_ms :: "user \<Rightarrow> int" where
  \<comment> \<open>\<^verbatim>\<open>user.lastSeen ? new Date(user.lastSeen).getTime() : 0\<close>\<close>
  "last_seen_ms u = (case u_lastSeen u of None \<Rightarrow> 0 | Some t \<Rightarrow> t)"

definition POST_status :: "env \<Rightarrow> session \<Rightarrow> store \<Rightarrow> response \<times> store" where
  "POST_status e session s =
     (if \<not> truthy session then (unauthorized, s)
      else (let (_, s') = updateUser (clock e 1) (the_string session)
                  \<lparr>upd_name = None, upd_status = None, upd_profilePicture = None,
                   upd_lastSeen = Some (clock e 0)\<rparr> s
            in ((200, SuccessBody), s')))"

fun split_on :: "char \<Rightarrow> string \<Rightarrow> string list" where
  "split_on sep [] = [[]]"
| "split_on sep (c # cs) =
     (if c = sep then [] # split_on sep cs
      else (case split_on sep cs of [] \<Rightarrow> [[c]] | w # ws \<Rightarrow> (c # w) # ws))"

definition status_step ::
  "int \<Rightarrow> user list \<Rightarrow> string \<Rightarrow> (string \<rightharpoonup> status_entry) \<Rightarrow> (string \<rightharpoonup> status_entry)" where
  "status_step now us userId statusMap =
     (case find (\<lambda>u. u_id u = userId) us of
        None \<Rightarrow> statusMap
      | Some u \<Rightarrow>
          (let lastSeen = last_seen_ms u;
               isOnline = (now - lastSeen < OFFLINE_THRESHOLD)
           in statusMap(userId \<mapsto> \<lparr>s_isOnline = isOnline, s_lastSeen = u_lastSeen u\<rparr>)))"

definition userIds_of :: "string option \<Rightarrow> string list" where
  \<comment> \<open>\<^verbatim>\<open>searchParams.get('userIds')?.split(',') || []\<close>\<close>
  "userIds_of userIdsParam =
     (case userIdsParam of None \<Rightarrow> [] | Some q \<Rightarrow> split_on CHR '','' q)"

definition status_map :: "int \<Rightarrow> user list \<Rightarrow> string list \<Rightarrow> (string \<rightharpoonup> status_entry)" where
  \<comment> \<open>the \<^verbatim>\<open>forEach\<close> loop that fills \<^verbatim>\<open>statusMap\<close>\<close>
  "status_map now us userIds = fold (status_step now us) userIds Map.empty"

definition GET_status :: "env \<Rightarrow> session \<Rightarrow> string option \<Rightarrow> store \<Rightarrow> response \<times> store" where
  "GET_status e session userIdsParam s =
     (if \<not> truthy session then (unauthorized, s)
      else (let userIds = userIds_of userIdsParam;
                us = getUsers s;
                now = clock e 0
            in ((200, StatusMapBody (status_map now us userIds)), s)))"

subsection \<open>Contacts: \<^verbatim>\<open>src/app/api/contacts/route.ts\<close>\<close>

definition contact_view_of :: "int \<Rightarrow> store \<Rightarrow> contact \<Rightarrow> contact_view option" where
  "contact_view_of now s c =
     (case getUserById s (c_contactId c) of
        None \<Rightarrow> None
      | Some u \<Rightarrow>
          (let lastSeen = last_seen_ms u;
               isOnline = (now - lastSeen < OFFLINE_THRESHOLD)
           in Some \<lparr>v_id = u_id u, v_name = u_name u, v_phone = u_phone u,
                    v_status = or_empty (u_status u),
                    v_profilePicture = or_empty (u_profilePicture u),
                    v_addedAt = c_addedAt c, v_isOnline = isOnline,
                    v_lastSeen = u_lastSeen u\<rparr>))"

definition GET_contacts :: "env \<Rightarrow> session \<Rightarrow> store \<Rightarrow> response \<times> store" where
  "GET_contacts e session s =
     (if \<not> truthy session then (unauthorized, s)
      else (let cs = getUserContacts s (the_string session);
                now = clock e 0
            in ((200, ContactsBody (List.map_filter (contact_view_of now s) cs)), s)))"

definition add_by_id :: "env \<Rightarrow> string \<Rightarrow> string \<Rightarrow> store \<Rightarrow> response \<times> store" where
  \<comment> \<open>the branch \<^verbatim>\<open>if (contactId)\<close> of POST\<close>
  "add_by_id e caller contactId s =
     (case getUserById s contactId of
        None \<Rightarrow> ((404, ErrorBody ''User not found''), s)
      | Some contactUser \<Rightarrow>
          if contactId = caller
          then ((400, ErrorBody ''Cannot add yourself as a contact''), s)
          else ((201, ContactUserBody contactUser), addContact (clock e 0) caller contactId s))"

definition add_by_phone :: "env \<Rightarrow> string \<Rightarrow> string \<Rightarrow> string \<Rightarrow> store \<Rightarrow> response \<times> store" where
  \<comment> \<open>the branch \<^verbatim>\<open>if (phone && name)\<close> of POST; the clock is read twice by \<^verbatim>\<open>createUser\<close>\<close>
  "add_by_phone e caller phone name s =
     (let normalizedPhone = remove_ws phone
      in if \<not> phoneRegex normalizedPhone
         then ((400, ErrorBody ''Invalid phone number format. Please enter 10-15 digits.''), s)
         else (let (contactUser, s1, k) =
                     (case getUserByPhone s normalizedPhone of
                        Some u \<Rightarrow> (u, s, 0)
                      | None \<Rightarrow>
                          (let (u, s') = createUser (clock e 0) (random e) (clock e 1)
                                 (phone_password_name normalizedPhone [] (trim name)) s
                           in (u, s', 2)))
               in if u_id contactUser = caller
                  then ((400, ErrorBody ''Cannot add yourself as a contact''), s1)
                  else if list_ex (\<lambda>c. c_contactId c = u_id contactUser)
                            (getUserContacts s1 caller)
                  then ((400, ErrorBody ''This contact is already in your contact list''), s1)
                  else ((201, ContactBody (withoutPassword contactUser)),
                        addContact (clock e k) caller (u_id contactUser) s1)))"

definition POST_contacts :: "env \<Rightarrow> session \<Rightarrow> json_object \<Rightarrow> store \<Rightarrow> response \<times> store" where
  "POST_contacts e session req s =
     (if \<not> truthy session then (unauthorized, s)
      else (let contactId = req ''contactId''; phone = req ''phone''; name = req ''name''
            in if truthy contactId
               then add_by_id e (the_string session) (the_string contactId) s
               else if truthy phone \<and> truthy name
               then add_by_phone e (the_string session) (the_string phone) (the_string name) s
               else ((400, ErrorBody ''Either contactId or phone and name are required''), s)))"

subsection \<open>Profiles: the routes \<^verbatim>\<open>users/[id]\<close> and \<^verbatim>\<open>profile\<close>\<close>

definition GET_user :: "session \<Rightarrow> string \<Rightarrow> store \<Rightarrow> response \<times> store" where
  "GET_user session ident s =
     (if \<not> truthy session then (unauthorized, s)
      else (case getUserById s ident of
              None \<Rightarrow> ((404, ErrorBody ''User not found''), s)
            | Some u \<Rightarrow> ((200, UserBody (withoutPassword u)), s)))"

definition GET_profile :: "session \<Rightarrow> store \<Rightarrow> response \<times> store" where
  "GET_profile session s =
     (if \<not> truthy session then (unauthorized, s)
      else (case getUserById s (the_string session) of
              None \<Rightarrow> ((404, ErrorBody ''User not found''), s)
            | Some u \<Rightarrow> ((200, UserBody (withoutPassword u)), s)))"

definition PUT_profile :: "env \<Rightarrow> session \<Rightarrow> json_object \<Rightarrow> store \<Rightarrow> response \<times> store" where
  "PUT_profile e session req s =
     (if \<not> truthy session then (unauthorized, s)
      else (let updates = \<lparr>upd_name = req ''name'', upd_status = req ''status'',
                           upd_profilePicture = req ''profilePicture'',
                           upd_lastSeen = None\<rparr>
            in (case updateUser (clock e 0) (the_string session) updates s of
                  (None, s') \<Rightarrow> ((404, ErrorBody ''User not found''), s')
                | (Some updatedUser, s') \<Rightarrow>
                    ((200, UserBody (withoutPassword updatedUser)), s'))))"

subsection \<open>Registration and login\<close>

definition POST_register :: "env \<Rightarrow> json_object \<Rightarrow> store \<Rightarrow> response \<times> store" where
  "POST_register e req s =
     (let phone = req ''phone''; password = req ''password''; name = req ''name''
      in if \<not> truthy phone \<or> \<not> truthy password \<or> \<not> truthy name
         then ((400, ErrorBody ''Phone number, password, and name are required''), s)
         else if \<not> phoneRegex (remove_ws (the_string phone))
         then ((400, ErrorBody ''Invalid phone number format. Please enter 10-15 digits.''), s)
         else (let normalizedPhone = remove_ws (the_string phone)
               in (case getUserByPhone s normalizedPhone of
                     Some existingUser \<Rightarrow>
                       ((400, ErrorBody ''User with this phone number already exists''), s)
                   | None \<Rightarrow>
                       (let hashedPassword = bcrypt_hash e (the_string password);
                            (u, s') = createUser (clock e 0) (random e) (clock e 1)
                              (phone_password_name normalizedPhone hashedPassword
                                 (the_string name)) s
                        in ((201, UserBody (withoutPassword u)), s')))))"

record identity =
  i_id :: string
  i_phone :: string
  i_name :: string

definition authorize :: "env \<Rightarrow> string option \<Rightarrow> string option \<Rightarrow> store \<Rightarrow> identity option" where
  \<comment> \<open>\<^verbatim>\<open>null\<close> is \<open>None\<close>; a credential that is not a string counts as absent\<close>
  "authorize e cphone cpassword s =
     (if \<not> truthy cphone \<or> \<not> truthy cpassword then None
      else (let phone = the_string cphone; password = the_string cpassword;
                normalizedPhone = remove_ws phone
            in (case getUserByPhone s normalizedPhone of
                  None \<Rightarrow> None
                | Some u \<Rightarrow>
                    if \<not> bcrypt_compare e password (u_password u) then None
                    else Some \<lparr>i_id = u_id u, i_phone = u_phone u, i_name = u_name u\<rparr>)))"

subsection \<open>The stores the handlers can reach\<close>

inductive reachable :: "store \<Rightarrow> bool" where
  initial: "reachable empty_store"
| register: "reachable s \<Longrightarrow> reachable (snd (POST_register e req s))"
| add_contact: "reachable s \<Longrightarrow> reachable (snd (POST_contacts e session req s))"
| send: "reachable s \<Longrightarrow> reachable (snd (POST_messages e session req s))"
| fetch: "reachable s \<Longrightarrow> reachable (snd (GET_messages session userIdParam s))"
| heartbeat: "reachable s \<Longrightarrow> reachable (snd (POST_status e session s))"
| update_profile: "reachable s \<Longrightarrow> reachable (snd (PUT_profile e session req s))"

text \<open>
  The user that the phone branch of POST /contacts creates for a number nobody has:
  the value \<^verbatim>\<open>createUser\<close> returns there, written out.
\<close>

definition placeholder_user :: "env \<Rightarrow> string \<Rightarrow> string \<Rightarrow> user" where
  "placeholder_user e phone name =
     \<lparr>u_id = new_id (clock e 0) (random e), u_phone = remove_ws phone, u_password = [],
      u_name = trim name, u_status = Some [], u_profilePicture = Some [],
      u_createdAt = clock e 1, u_updatedAt = None, u_lastSeen = None\<rparr>"

subsection \<open>The invariant of the contacts file\<close>

definition contacts_inv :: "(string \<rightharpoonup> contact list) \<Rightarrow> bool" where
  "contacts_inv cs =
     (\<forall>k l. cs k = Some l \<longrightarrow>
        distinct (map c_contactId l) \<and> (\<forall>c\<in>set l. c_userId c = k))"

subsection \<open>Example data\<close>

definition example_messages :: "message list" where
  "example_messages =
     [\<lparr>m_id = ''m1'', m_senderId = ''alice'', m_receiverId = ''bob'', m_content = ''hi'',
       m_timestamp = 3000, m_read = False\<rparr>,
      \<lparr>m_id = ''m2'', m_senderId = ''bob'', m_receiverId = ''alice'', m_content = ''hello'',
       m_timestamp = 2000, m_read = False\<rparr>,
      \<lparr>m_id = ''m3'', m_senderId = ''alice'', m_receiverId = ''carol'', m_content = ''yo'',
       m_timestamp = 1000, m_read = False\<rparr>]"

definition example_user :: "string \<Rightarrow> string \<Rightarrow> string \<Rightarrow> int option \<Rightarrow> user" where
  "example_user ident phone password seen =
     \<lparr>u_id = ident, u_phone = phone, u_password = password, u_name = ident,
      u_status = Some [], u_profilePicture = Some [], u_createdAt = 500,
      u_updatedAt = None, u_lastSeen = seen\<rparr>"

definition example_store :: store where
  "example_store =
     \<lparr>users = [example_user ''alice'' ''5551234567'' ''hash-a'' (Some 760000),
               example_user ''bob'' ''5559876543'' ''hash-b'' (Some 640000),
               example_user ''carol'' ''5550001111'' ''hash-c'' None],
      contacts =
        [''alice'' \<mapsto> [\<lparr>c_userId = ''alice'', c_contactId = ''bob'', c_addedAt = 900\<rparr>],
         ''bob'' \<mapsto>
           [\<lparr>c_userId = ''bob'', c_contactId = ''alice'', c_addedAt = 910\<rparr>,
            \<lparr>c_userId = ''bob'', c_contactId = ''ghost'', c_addedAt = 920\<rparr>,
            \<lparr>c_userId = ''bob'', c_contactId = ''carol'', c_addedAt = 930\<rparr>]],
      messages = example_messages\<rparr>"

definition example_update :: json_object where
  "example_update =
     [''name'' \<mapsto> ''Alice B'', ''status'' \<mapsto> ''busy'', ''id'' \<mapsto> ''root'',
      ''phone'' \<mapsto> ''0000000000'', ''password'' \<mapsto> ''pwned'']"


definition example_env :: env where
  "example_env =
     \<lparr>clock = (\<lambda>k. 1000000 + int k), random = ''k3x9q0zab'',
      bcrypt_hash = (\<lambda>p. ''hash-'' @ p),
      bcrypt_compare = (\<lambda>p h. h = ''hash-'' @ p)\<rparr>"

definition register_alice :: json_object where
  "register_alice =
     [''phone'' \<mapsto> ''555 123 4567'', ''password'' \<mapsto> ''a'', ''name'' \<mapsto> ''Alice'']"

definition register_bob :: json_object where
  "register_bob =
     [''phone'' \<mapsto> ''5559876543'', ''password'' \<mapsto> ''b'', ''name'' \<mapsto> ''Bob'']"

definition later_env :: env where
  "later_env = example_env\<lparr>clock := (\<lambda>k. 2000000 + int k), random := ''bbbbbbbbb''\<rparr>"

definition two_users :: store where
  "two_users =
     snd (POST_register later_env register_bob
       (snd (POST_register example_env register_alice empty_store)))"

definition alice_knows_bob :: store where
  "alice_knows_bob =
     snd (POST_contacts example_env (Some ''1000000k3x9q0zab'')
       [''contactId'' \<mapsto> ''2000000bbbbbbbbb''] two_users)"

section \<open>Conversations\<close>

lemma in_conversation_commute:
  "in_conversation a b = in_conversation b a"
  by (auto simp: in_conversation_def fun_eq_iff)

text \<open>
  C4. For all users A and B and every message store, the conversation of A with B and
  that of B with A are the same list; it holds exactly the stored messages sent from
  one of the two to the other (each as often as it is stored), and it is sorted by
  time stamp, ascending.
\<close>

theorem getConversationMessages_symmetric_sorted:
  "getConversationMessages a b s = getConversationMessages b a s \<and>
   mset (getConversationMessages a b s) =
     filter_mset (\<lambda>m. (m_senderId m = a \<and> m_receiverId m = b) \<or>
                       (m_senderId m = b \<and> m_receiverId m = a)) (mset (messages s)) \<and>
   set (getConversationMessages a b s) =
     {m \<in> set (messages s). (m_senderId m = a \<and> m_receiverId m = b) \<or>
                               (m_senderId m = b \<and> m_receiverId m = a)} \<and>
   sorted (map m_timestamp (getConversationMessages a b s))"
proof -
  have sym: "getConversationMessages a b s = getConversationMessages b a s"
    by (simp add: getConversationMessages_def in_conversation_commute [of a b])
  have ms: "mset (getConversationMessages a b s) =
      filter_mset (\<lambda>m. (m_senderId m = a \<and> m_receiverId m = b) \<or>
                        (m_senderId m = b \<and> m_receiverId m = a)) (mset (messages s))"
    by (simp add: getConversationMessages_def getMessages_def in_conversation_def)
  have st: "set (getConversationMessages a b s) =
      {m \<in> set (messages s). (m_senderId m = a \<and> m_receiverId m = b) \<or>
                                (m_senderId m = b \<and> m_receiverId m = a)}"
    by (simp add: getConversationMessages_def getMessages_def in_conversation_def)
  have so: "sorted (map m_timestamp (getConversationMessages a b s))"
    by (simp add: getConversationMessages_def)
  from sym ms st so show ?thesis by blast
qed

section \<open>Read receipts\<close>

text \<open>
  C3. For every reader, other user and store, \<^verbatim>\<open>markMessagesAsRead\<close> turns the read flag
  on for exactly the messages sent by the other user to the reader that were unread,
  and leaves every other message, every other field of every message, and the users and
  contacts as they were. The handler of GET /messages runs it, for the caller and the
  user of the query, after it has read the conversation it returns.
\<close>

theorem markMessagesAsRead_exact:
  "length (messages (markMessagesAsRead readerId otherId s)) = length (messages s) \<and>
   users (markMessagesAsRead readerId otherId s) = users s \<and>
   contacts (markMessagesAsRead readerId otherId s) = contacts s \<and>
   (\<forall>i < length (messages s).
      (m_senderId (messages s ! i) = otherId \<and> m_receiverId (messages s ! i) = readerId \<and>
         \<not> m_read (messages s ! i) \<longrightarrow>
       messages (markMessagesAsRead readerId otherId s) ! i = (messages s ! i)\<lparr>m_read := True\<rparr>) \<and>
      (\<not> (m_senderId (messages s ! i) = otherId \<and> m_receiverId (messages s ! i) = readerId \<and>
         \<not> m_read (messages s ! i)) \<longrightarrow>
       messages (markMessagesAsRead readerId otherId s) ! i = messages s ! i) \<and>
      m_id (messages (markMessagesAsRead readerId otherId s) ! i) = m_id (messages s ! i) \<and>
      m_senderId (messages (markMessagesAsRead readerId otherId s) ! i) =
        m_senderId (messages s ! i) \<and>
      m_receiverId (messages (markMessagesAsRead readerId otherId s) ! i) =
        m_receiverId (messages s ! i) \<and>
      m_content (messages (markMessagesAsRead readerId otherId s) ! i) =
        m_content (messages s ! i) \<and>
      m_timestamp (messages (markMessagesAsRead readerId otherId s) ! i) =
        m_timestamp (messages s ! i)) \<and>
   (readerId \<noteq> [] \<and> otherId \<noteq> [] \<longrightarrow>
      snd (GET_messages (Some readerId) (Some otherId) s) =
        markMessagesAsRead readerId otherId s \<and>
      fst (GET_messages (Some readerId) (Some otherId) s) =
        (200, MessagesBody (getConversationMessages readerId otherId s)))"
  by (simp add: markMessagesAsRead_def getMessages_def mark_one_def GET_messages_def
      the_string_def truthy_def)

theorem markMessagesAsRead_exact_witness:
  "messages (snd (GET_messages (Some ''bob'') (Some ''alice'') example_store)) =
     [\<lparr>m_id = ''m1'', m_senderId = ''alice'', m_receiverId = ''bob'', m_content = ''hi'',
       m_timestamp = 3000, m_read = True\<rparr>,
      \<lparr>m_id = ''m2'', m_senderId = ''bob'', m_receiverId = ''alice'', m_content = ''hello'',
       m_timestamp = 2000, m_read = False\<rparr>,
      \<lparr>m_id = ''m3'', m_senderId = ''alice'', m_receiverId = ''carol'', m_content = ''yo'',
       m_timestamp = 1000, m_read = False\<rparr>]"
  using markMessagesAsRead_exact [of "''bob''" "''alice''" example_store]
  by (simp add: example_store_def example_messages_def markMessagesAsRead_def
      getMessages_def mark_one_def)

section \<open>Presence\<close>

lemma fold_status_step:
  "fold (status_step now us) ids m userId =
     (if userId \<in> set ids
      then (case find (\<lambda>u. u_id u = userId) us of
              None \<Rightarrow> m userId
            | Some u \<Rightarrow> Some \<lparr>s_isOnline = (now - last_seen_ms u < OFFLINE_THRESHOLD),
                             s_lastSeen = u_lastSeen u\<rparr>)
      else m userId)"
proof (induction ids arbitrary: m)
  case Nil
  then show ?case by simp
next
  case (Cons a ids)
  show ?case
    by (simp add: Cons.IH) (auto simp: status_step_def split: option.splits)
qed

lemma status_map_closed:
  "status_map now us ids userId =
     (if userId \<in> set ids
      then map_option (\<lambda>u. \<lparr>s_isOnline = (now - last_seen_ms u < OFFLINE_THRESHOLD),
                             s_lastSeen = u_lastSeen u\<rparr>) (find (\<lambda>u. u_id u = userId) us)
      else None)"
  by (simp add: status_map_def fold_status_step split: option.splits)

lemma contact_view_of_online:
  "contact_view_of now s c = Some v \<Longrightarrow>
   \<exists>u. getUserById s (c_contactId c) = Some u \<and> v_id v = u_id u \<and>
       v_isOnline v = (now - last_seen_ms u < OFFLINE_THRESHOLD) \<and> v_lastSeen v = u_lastSeen u"
  by (auto simp: contact_view_of_def Let_def split: option.splits)

text \<open>
  C5. The status map of GET /users/status holds an entry for exactly the queried ids
  that name a user; for a user last seen at \<open>t\<close> the entry's online flag is true if and
  only if the clock minus \<open>t\<close> is less than five minutes (true at four minutes, false at
  six), and the entry carries the stored last-seen value; a user with no last-seen value
  is treated as last seen at time 0. GET /contacts returns, in order, one entry for each
  contact of the caller whose id names a user, and none for the others; the entry
  carries the user's id, name, phone, status and picture, the time the contact was added,
  the stored last-seen value and the online flag computed in the same way.
\<close>

theorem presence_online_iff_recent:
  "(truthy session \<longrightarrow>
      GET_status e session q s =
        ((200, StatusMapBody (status_map (clock e 0) (users s) (userIds_of q))), s) \<and>
      GET_contacts e session s =
        ((200, ContactsBody (List.map_filter (contact_view_of (clock e 0) s)
            (getUserContacts s (the_string session)))), s)) \<and>
   (\<forall>userId. userId \<notin> set ids \<or> find (\<lambda>u. u_id u = userId) us = None \<longrightarrow>
      status_map now us ids userId = None) \<and>
   (\<forall>userId u t. userId \<in> set ids \<and> find (\<lambda>u. u_id u = userId) us = Some u \<and>
        u_lastSeen u = Some t \<longrightarrow>
      status_map now us ids userId =
        Some \<lparr>s_isOnline = (now - t < 5 * 60 * 1000), s_lastSeen = Some t\<rparr> \<and>
      (t = now - 4 * 60 * 1000 \<longrightarrow>
         status_map now us ids userId = Some \<lparr>s_isOnline = True, s_lastSeen = Some t\<rparr>) \<and>
      (t = now - 6 * 60 * 1000 \<longrightarrow>
         status_map now us ids userId = Some \<lparr>s_isOnline = False, s_lastSeen = Some t\<rparr>)) \<and>
   (\<forall>userId u. userId \<in> set ids \<and> find (\<lambda>u. u_id u = userId) us = Some u \<and>
        u_lastSeen u = None \<longrightarrow>
      status_map now us ids userId =
        Some \<lparr>s_isOnline = (now - 0 < 5 * 60 * 1000), s_lastSeen = None\<rparr>) \<and>
   (\<forall>c v u t. contact_view_of now s c = Some v \<and> getUserById s (c_contactId c) = Some u \<and>
        u_lastSeen u = Some t \<longrightarrow>
      v_isOnline v = (now - t < 5 * 60 * 1000) \<and> v_lastSeen v = Some t \<and>
      (t = now - 4 * 60 * 1000 \<longrightarrow> v_isOnline v) \<and>
      (t = now - 6 * 60 * 1000 \<longrightarrow> \<not> v_isOnline v)) \<and>
   (caller \<noteq> [] \<longrightarrow>
      GET_contacts e (Some caller) s =
        ((200, ContactsBody
            (List.map_filter
               (\<lambda>c. map_option
                  (\<lambda>u. \<lparr>v_id = u_id u, v_name = u_name u, v_phone = u_phone u,
                         v_status = (case u_status u of None \<Rightarrow> [] | Some x \<Rightarrow> x),
                         v_profilePicture =
                           (case u_profilePicture u of None \<Rightarrow> [] | Some x \<Rightarrow> x),
                         v_addedAt = c_addedAt c,
                         v_isOnline =
                           (clock e 0 - (case u_lastSeen u of None \<Rightarrow> 0 | Some t \<Rightarrow> t)
                              < 5 * 60 * 1000),
                         v_lastSeen = u_lastSeen u\<rparr>)
                  (find (\<lambda>u. u_id u = c_contactId c) (users s)))
               (case contacts s caller of None \<Rightarrow> [] | Some l \<Rightarrow> l))), s)) \<and>
   (\<forall>c. find (\<lambda>u. u_id u = c_contactId c) (users s) = None \<longrightarrow>
      contact_view_of now s c = None) \<and>
   (\<forall>c u t. find (\<lambda>u. u_id u = c_contactId c) (users s) = Some u \<and>
        u_lastSeen u = Some t \<longrightarrow>
      (\<exists>v. contact_view_of now s c = Some v \<and> v_id v = u_id u \<and>
           v_addedAt v = c_addedAt c \<and>
           v_isOnline v = (now - t < 5 * 60 * 1000) \<and> v_lastSeen v = Some t \<and>
           (t = now - 4 * 60 * 1000 \<longrightarrow> v_isOnline v) \<and>
           (t = now - 6 * 60 * 1000 \<longrightarrow> \<not> v_isOnline v))) \<and>
   (\<forall>c u. find (\<lambda>u. u_id u = c_contactId c) (users s) = Some u \<and>
        u_lastSeen u = None \<longrightarrow>
      (\<exists>v. contact_view_of now s c = Some v \<and> v_id v = u_id u \<and>
           v_addedAt v = c_addedAt c \<and>
           v_isOnline v = (now - 0 < 5 * 60 * 1000) \<and> v_lastSeen v = None))"
proof -
  have a: "truthy session \<longrightarrow>
      GET_status e session q s =
        ((200, StatusMapBody (status_map (clock e 0) (users s) (userIds_of q))), s) \<and>
      GET_contacts e session s =
        ((200, ContactsBody (List.map_filter (contact_view_of (clock e 0) s)
            (getUserContacts s (the_string session)))), s)"
    by (simp add: GET_status_def GET_contacts_def getUsers_def)
  have b: "\<forall>userId. userId \<notin> set ids \<or> find (\<lambda>u. u_id u = userId) us = None \<longrightarrow>
      status_map now us ids userId = None"
    by (auto simp: status_map_closed)
  have c: "\<forall>userId u t. userId \<in> set ids \<and> find (\<lambda>u. u_id u = userId) us = Some u \<and>
        u_lastSeen u = Some t \<longrightarrow>
      status_map now us ids userId =
        Some \<lparr>s_isOnline = (now - t < 5 * 60 * 1000), s_lastSeen = Some t\<rparr> \<and>
      (t = now - 4 * 60 * 1000 \<longrightarrow>
         status_map now us ids userId = Some \<lparr>s_isOnline = True, s_lastSeen = Some t\<rparr>) \<and>
      (t = now - 6 * 60 * 1000 \<longrightarrow>
         status_map now us ids userId = Some \<lparr>s_isOnline = False, s_lastSeen = Some t\<rparr>)"
    by (simp add: status_map_closed last_seen_ms_def OFFLINE_THRESHOLD_def)
  have d: "\<forall>c v u t. contact_view_of now s c = Some v \<and> getUserById s (c_contactId c) = Some u \<and>
        u_lastSeen u = Some t \<longrightarrow>
      v_isOnline v = (now - t < 5 * 60 * 1000) \<and> v_lastSeen v = Some t \<and>
      (t = now - 4 * 60 * 1000 \<longrightarrow> v_isOnline v) \<and>
      (t = now - 6 * 60 * 1000 \<longrightarrow> \<not> v_isOnline v)"
    by (auto simp: contact_view_of_def Let_def last_seen_ms_def OFFLINE_THRESHOLD_def)
  have c0: "\<forall>userId u. userId \<in> set ids \<and> find (\<lambda>u. u_id u = userId) us = Some u \<and>
        u_lastSeen u = None \<longrightarrow>
      status_map now us ids userId =
        Some \<lparr>s_isOnline = (now - 0 < 5 * 60 * 1000), s_lastSeen = None\<rparr>"
    by (simp add: status_map_closed last_seen_ms_def OFFLINE_THRESHOLD_def)
  have view: "contact_view_of t0 s c =
      map_option
        (\<lambda>u. \<lparr>v_id = u_id u, v_name = u_name u, v_phone = u_phone u,
               v_status = (case u_status u of None \<Rightarrow> [] | Some x \<Rightarrow> x),
               v_profilePicture = (case u_profilePicture u of None \<Rightarrow> [] | Some x \<Rightarrow> x),
               v_addedAt = c_addedAt c,
               v_isOnline = (t0 - (case u_lastSeen u of None \<Rightarrow> 0 | Some t \<Rightarrow> t)
                               < 5 * 60 * 1000),
               v_lastSeen = u_lastSeen u\<rparr>)
        (find (\<lambda>u. u_id u = c_contactId c) (users s))" for t0 c
    by (simp add: contact_view_of_def getUserById_def getUsers_def Let_def last_seen_ms_def
        OFFLINE_THRESHOLD_def or_empty_def split: option.splits)
  have f: "caller \<noteq> [] \<longrightarrow>
      GET_contacts e (Some caller) s =
        ((200, ContactsBody
            (List.map_filter
               (\<lambda>c. map_option
                  (\<lambda>u. \<lparr>v_id = u_id u, v_name = u_name u, v_phone = u_phone u,
                         v_status = (case u_status u of None \<Rightarrow> [] | Some x \<Rightarrow> x),
                         v_profilePicture =
                           (case u_profilePicture u of None \<Rightarrow> [] | Some x \<Rightarrow> x),
                         v_addedAt = c_addedAt c,
                         v_isOnline =
                           (clock e 0 - (case u_lastSeen u of None \<Rightarrow> 0 | Some t \<Rightarrow> t)
                              < 5 * 60 * 1000),
                         v_lastSeen = u_lastSeen u\<rparr>)
                  (find (\<lambda>u. u_id u = c_contactId c) (users s)))
               (case contacts s caller of None \<Rightarrow> [] | Some l \<Rightarrow> l))), s)"
  proof -
    have view_fun: "contact_view_of (clock e 0) s =
      (\<lambda>c. map_option
        (\<lambda>u. \<lparr>v_id = u_id u, v_name = u_name u, v_phone = u_phone u,
               v_status = (case u_status u of None \<Rightarrow> [] | Some x \<Rightarrow> x),
               v_profilePicture = (case u_profilePicture u of None \<Rightarrow> [] | Some x \<Rightarrow> x),
               v_addedAt = c_addedAt c,
               v_isOnline = (clock e 0 - (case u_lastSeen u of None \<Rightarrow> 0 | Some t \<Rightarrow> t)
                               < 5 * 60 * 1000),
               v_lastSeen = u_lastSeen u\<rparr>)
        (find (\<lambda>u. u_id u = c_contactId c) (users s)))"
      by (rule ext) (rule view)
    show ?thesis
      by (simp add: GET_contacts_def truthy_def the_string_def getUserContacts_def
          getContacts_def view_fun)
  qed
  have g: "\<forall>c. find (\<lambda>u. u_id u = c_contactId c) (users s) = None \<longrightarrow>
      contact_view_of now s c = None"
    by (simp add: view)
  have h: "\<forall>c u t. find (\<lambda>u. u_id u = c_contactId c) (users s) = Some u \<and>
        u_lastSeen u = Some t \<longrightarrow>
      (\<exists>v. contact_view_of now s c = Some v \<and> v_id v = u_id u \<and>
           v_addedAt v = c_addedAt c \<and>
           v_isOnline v = (now - t < 5 * 60 * 1000) \<and> v_lastSeen v = Some t \<and>
           (t = now - 4 * 60 * 1000 \<longrightarrow> v_isOnline v) \<and>
           (t = now - 6 * 60 * 1000 \<longrightarrow> \<not> v_isOnline v))"
    by (simp add: view)
  have i: "\<forall>c u. find (\<lambda>u. u_id u = c_contactId c) (users s) = Some u \<and>
        u_lastSeen u = None \<longrightarrow>
      (\<exists>v. contact_view_of now s c = Some v \<and> v_id v = u_id u \<and>
           v_addedAt v = c_addedAt c \<and>
           v_isOnline v = (now - 0 < 5 * 60 * 1000) \<and> v_lastSeen v = None)"
    by (simp add: view)
  from a b c c0 d f g h i show ?thesis by blast
qed

theorem presence_online_iff_recent_witness:
  "status_map 1000000 (users example_store) [''alice'', ''bob'', ''dave''] ''alice'' =
     Some \<lparr>s_isOnline = True, s_lastSeen = Some 760000\<rparr> \<and>
   status_map 1000000 (users example_store) [''alice'', ''bob'', ''dave''] ''bob'' =
     Some \<lparr>s_isOnline = False, s_lastSeen = Some 640000\<rparr> \<and>
   status_map 1000000 (users example_store) [''alice'', ''bob'', ''dave''] ''dave'' = None \<and>
   GET_status example_env (Some ''alice'') (Some ''alice,bob,dave'') example_store =
     ((200, StatusMapBody (status_map 1000000 (users example_store)
         [''alice'', ''bob'', ''dave''])), example_store) \<and>
   GET_contacts example_env (Some ''alice'') example_store =
     ((200, ContactsBody
        [\<lparr>v_id = ''bob'', v_name = ''bob'', v_phone = ''5559876543'', v_status = [],
          v_profilePicture = [], v_addedAt = 900, v_isOnline = False,
          v_lastSeen = Some 640000\<rparr>]), example_store) \<and>
   GET_contacts example_env (Some ''bob'') example_store =
     ((200, ContactsBody
        [\<lparr>v_id = ''alice'', v_name = ''alice'', v_phone = ''5551234567'', v_status = [],
          v_profilePicture = [], v_addedAt = 910, v_isOnline = True,
          v_lastSeen = Some 760000\<rparr>,
         \<lparr>v_id = ''carol'', v_name = ''carol'', v_phone = ''5550001111'', v_status = [],
          v_profilePicture = [], v_addedAt = 930, v_isOnline = False,
          v_lastSeen = None\<rparr>]), example_store)"
proof -
  note th = presence_online_iff_recent [where session = "Some ''alice''" and e = example_env
      and q = "Some ''alice,bob,dave''" and s = example_store
      and ids = "[''alice'', ''bob'', ''dave'']" and us = "users example_store"
      and now = 1000000]
  have auth: "truthy (Some ''alice'')"
    by (simp add: truthy_def)
  have ids: "userIds_of (Some ''alice,bob,dave'') = [''alice'', ''bob'', ''dave'']"
    by (simp add: userIds_of_def)
  have clk: "clock example_env 0 = 1000000"
    by (simp add: example_env_def)
  have fa: "find (\<lambda>u. u_id u = ''alice'') (users example_store) =
      Some (example_user ''alice'' ''5551234567'' ''hash-a'' (Some 760000))"
    by (simp add: example_store_def example_user_def)
  have fb: "find (\<lambda>u. u_id u = ''bob'') (users example_store) =
      Some (example_user ''bob'' ''5559876543'' ''hash-b'' (Some 640000))"
    by (simp add: example_store_def example_user_def)
  have fc: "find (\<lambda>u. u_id u = ''carol'') (users example_store) =
      Some (example_user ''carol'' ''5550001111'' ''hash-c'' None)"
    by (simp add: example_store_def example_user_def)
  have fg: "find (\<lambda>u. u_id u = ''ghost'') (users example_store) = None"
    by (simp add: example_store_def example_user_def)
  have la: "u_lastSeen (example_user ''alice'' ''5551234567'' ''hash-a'' (Some 760000)) = Some 760000"
    and lb: "u_lastSeen (example_user ''bob'' ''5559876543'' ''hash-b'' (Some 640000)) = Some 640000"
    by (simp_all add: example_user_def)
  from th fa la have a: "status_map 1000000 (users example_store) [''alice'', ''bob'', ''dave''] ''alice'' =
     Some \<lparr>s_isOnline = True, s_lastSeen = Some 760000\<rparr>"
    by simp
  from th fb lb have b: "status_map 1000000 (users example_store) [''alice'', ''bob'', ''dave''] ''bob'' =
     Some \<lparr>s_isOnline = False, s_lastSeen = Some 640000\<rparr>"
    by simp
  have fd: "find (\<lambda>u. u_id u = ''dave'') (users example_store) = None"
    by (simp add: example_store_def example_user_def)
  from th fd have d: "status_map 1000000 (users example_store) [''alice'', ''bob'', ''dave''] ''dave'' = None"
    by simp
  from th auth ids clk have g: "GET_status example_env (Some ''alice'') (Some ''alice,bob,dave'') example_store =
     ((200, StatusMapBody (status_map 1000000 (users example_store)
         [''alice'', ''bob'', ''dave''])), example_store)"
    by simp
  have ca: "contacts example_store ''alice'' =
      Some [\<lparr>c_userId = ''alice'', c_contactId = ''bob'', c_addedAt = 900\<rparr>]"
    and cb: "contacts example_store ''bob'' =
      Some [\<lparr>c_userId = ''bob'', c_contactId = ''alice'', c_addedAt = 910\<rparr>,
            \<lparr>c_userId = ''bob'', c_contactId = ''ghost'', c_addedAt = 920\<rparr>,
            \<lparr>c_userId = ''bob'', c_contactId = ''carol'', c_addedAt = 930\<rparr>]"
    by (simp_all add: example_store_def)
  from presence_online_iff_recent [where e = example_env and s = example_store
      and caller = "''alice''"]
  have va: "GET_contacts example_env (Some ''alice'') example_store =
     ((200, ContactsBody
        [\<lparr>v_id = ''bob'', v_name = ''bob'', v_phone = ''5559876543'', v_status = [],
          v_profilePicture = [], v_addedAt = 900, v_isOnline = False,
          v_lastSeen = Some 640000\<rparr>]), example_store)"
    by (simp add: ca fb clk List.map_filter_simps example_user_def)
  from presence_online_iff_recent [where e = example_env and s = example_store
      and caller = "''bob''"]
  have vb: "GET_contacts example_env (Some ''bob'') example_store =
     ((200, ContactsBody
        [\<lparr>v_id = ''alice'', v_name = ''alice'', v_phone = ''5551234567'', v_status = [],
          v_profilePicture = [], v_addedAt = 910, v_isOnline = True,
          v_lastSeen = Some 760000\<rparr>,
         \<lparr>v_id = ''carol'', v_name = ''carol'', v_phone = ''5550001111'', v_status = [],
          v_profilePicture = [], v_addedAt = 930, v_isOnline = False,
          v_lastSeen = None\<rparr>]), example_store)"
    by (simp add: cb fa fc fg clk List.map_filter_simps example_user_def)
  from a b d g va vb show ?thesis by blast
qed

section \<open>Updating user records\<close>

lemma findIndex_Some:
  "findIndex P xs = Some i \<Longrightarrow> i < length xs \<and> P (xs ! i) \<and> (\<forall>j<i. \<not> P (xs ! j))"
proof (induction xs arbitrary: i)
  case Nil
  then show ?case by simp
next
  case (Cons x xs)
  show ?case
  proof (cases "P x")
    case True
    with Cons.prems show ?thesis by simp
  next
    case False
    with Cons.prems obtain k where k: "findIndex P xs = Some k" and i: "i = Suc k"
      by auto
    from Cons.IH [OF k] False i show ?thesis
      by (auto simp: nth_Cons split: nat.splits)
  qed
qed

lemma findIndex_None:
  "findIndex P xs = None \<Longrightarrow> \<forall>x\<in>set xs. \<not> P x"
  by (induction xs) (auto split: if_splits)

lemma apply_updates_frame:
  "u_id (apply_updates u upd t) = u_id u \<and> u_phone (apply_updates u upd t) = u_phone u \<and>
   u_password (apply_updates u upd t) = u_password u \<and>
   u_createdAt (apply_updates u upd t) = u_createdAt u \<and>
   u_updatedAt (apply_updates u upd t) = Some t"
  by (simp add: apply_updates_def)

lemma updateUser_None:
  "findIndex (\<lambda>u. u_id u = userId) (users s) = None \<Longrightarrow> updateUser t userId upd s = (None, s)"
  by (simp add: updateUser_def getUsers_def)

lemma updateUser_Some:
  "findIndex (\<lambda>u. u_id u = userId) (users s) = Some i \<Longrightarrow>
   updateUser t userId upd s =
     (Some (apply_updates (users s ! i) upd t),
      s\<lparr>users := (users s)[i := apply_updates (users s ! i) upd t]\<rparr>)"
  by (simp add: updateUser_def getUsers_def Let_def)

lemma updateUser_frame:
  "contacts (snd (updateUser t userId upd s)) = contacts s \<and>
   messages (snd (updateUser t userId upd s)) = messages s \<and>
   length (users (snd (updateUser t userId upd s))) = length (users s) \<and>
   (\<forall>j<length (users s).
      u_id (users (snd (updateUser t userId upd s)) ! j) = u_id (users s ! j) \<and>
      u_phone (users (snd (updateUser t userId upd s)) ! j) = u_phone (users s ! j) \<and>
      u_password (users (snd (updateUser t userId upd s)) ! j) = u_password (users s ! j) \<and>
      u_createdAt (users (snd (updateUser t userId upd s)) ! j) = u_createdAt (users s ! j) \<and>
      (upd_lastSeen upd = None \<longrightarrow>
         u_lastSeen (users (snd (updateUser t userId upd s)) ! j) = u_lastSeen (users s ! j)) \<and>
      (u_id (users s ! j) \<noteq> userId \<longrightarrow>
         users (snd (updateUser t userId upd s)) ! j = users s ! j))"
proof (cases "findIndex (\<lambda>u. u_id u = userId) (users s)")
  case None
  then show ?thesis by (simp add: updateUser_None)
next
  case (Some i)
  from findIndex_Some [OF Some] have i: "i < length (users s)" "u_id (users s ! i) = userId"
    by auto
  show ?thesis
    using i by (auto simp: updateUser_Some [OF Some] nth_list_update apply_updates_def)
qed

text \<open>
  C10. Whatever fields the body of a PUT /profile request holds, the handler leaves the
  id, phone, password, createdAt and lastSeen of every user record as they were, leaves
  every record whose id is not the caller's unchanged altogether, and leaves the
  contacts and the messages alone: only the name, status, profilePicture and updatedAt
  of the caller's own record can change.
\<close>

theorem PUT_profile_frame:
  "contacts (snd (PUT_profile e session req s)) = contacts s \<and>
   messages (snd (PUT_profile e session req s)) = messages s \<and>
   length (users (snd (PUT_profile e session req s))) = length (users s) \<and>
   (\<forall>j<length (users s).
      u_id (users (snd (PUT_profile e session req s)) ! j) = u_id (users s ! j) \<and>
      u_phone (users (snd (PUT_profile e session req s)) ! j) = u_phone (users s ! j) \<and>
      u_password (users (snd (PUT_profile e session req s)) ! j) = u_password (users s ! j) \<and>
      u_createdAt (users (snd (PUT_profile e session req s)) ! j) = u_createdAt (users s ! j) \<and>
      u_lastSeen (users (snd (PUT_profile e session req s)) ! j) = u_lastSeen (users s ! j) \<and>
      (session \<noteq> Some (u_id (users s ! j)) \<longrightarrow>
         users (snd (PUT_profile e session req s)) ! j = users s ! j))"
proof (cases "truthy session")
  case False
  then show ?thesis by (simp add: PUT_profile_def)
next
  case True
  define upd where "upd = \<lparr>upd_name = req ''name'', upd_status = req ''status'',
      upd_profilePicture = req ''profilePicture'', upd_lastSeen = (None :: int option)\<rparr>"
  have snd_eq: "snd (PUT_profile e session req s) =
      snd (updateUser (clock e 0) (the_string session) upd s)"
    using True by (simp add: PUT_profile_def upd_def split: prod.splits option.splits)
  have ls: "upd_lastSeen upd = None" by (simp add: upd_def)
  have sess: "\<And>x. session \<noteq> Some x \<Longrightarrow> x \<noteq> the_string session"
    using True by (auto simp: truthy_def the_string_def split: option.splits)
  show ?thesis
    unfolding snd_eq
    using updateUser_frame [of "clock e 0" "the_string session" upd s] ls sess
    by simp
qed

theorem PUT_profile_frame_witness:
  "users (snd (PUT_profile example_env (Some ''alice'') example_update example_store)) =
     [(example_user ''alice'' ''5551234567'' ''hash-a'' (Some 760000))
        \<lparr>u_name := ''Alice B'', u_status := Some ''busy'', u_updatedAt := Some 1000000\<rparr>,
      example_user ''bob'' ''5559876543'' ''hash-b'' (Some 640000),
      example_user ''carol'' ''5550001111'' ''hash-c'' None] \<and>
   u_password (users (snd (PUT_profile example_env (Some ''alice'') example_update
      example_store)) ! 0) = ''hash-a'' \<and>
   u_phone (users (snd (PUT_profile example_env (Some ''alice'') example_update
      example_store)) ! 0) = ''5551234567'' \<and>
   users (snd (PUT_profile example_env (Some ''alice'') example_update example_store)) ! 1 =
     example_user ''bob'' ''5559876543'' ''hash-b'' (Some 640000)"
proof -
  note th = PUT_profile_frame [of example_env "Some ''alice''" example_update example_store]
  have v: "users (snd (PUT_profile example_env (Some ''alice'') example_update example_store)) =
     [(example_user ''alice'' ''5551234567'' ''hash-a'' (Some 760000))
        \<lparr>u_name := ''Alice B'', u_status := Some ''busy'', u_updatedAt := Some 1000000\<rparr>,
      example_user ''bob'' ''5559876543'' ''hash-b'' (Some 640000),
      example_user ''carol'' ''5550001111'' ''hash-c'' None]"
    by (simp add: PUT_profile_def truthy_def the_string_def updateUser_def getUsers_def
        example_store_def example_user_def example_update_def example_env_def
        apply_updates_def Let_def)
  have len: "length (users example_store) = 3" and a: "users example_store ! 0 =
      example_user ''alice'' ''5551234567'' ''hash-a'' (Some 760000)"
    and b: "users example_store ! 1 = example_user ''bob'' ''5559876543'' ''hash-b'' (Some 640000)"
    by (simp_all add: example_store_def)
  have ida: "u_id (example_user ''alice'' ''5551234567'' ''hash-a'' (Some 760000)) = ''alice''"
    and pwa: "u_password (example_user ''alice'' ''5551234567'' ''hash-a'' (Some 760000)) = ''hash-a''"
    and pha: "u_phone (example_user ''alice'' ''5551234567'' ''hash-a'' (Some 760000)) = ''5551234567''"
    and idb: "u_id (example_user ''bob'' ''5559876543'' ''hash-b'' (Some 640000)) = ''bob''"
    by (simp_all add: example_user_def)
  from th len have j0: "u_password (users (snd (PUT_profile example_env (Some ''alice'')
      example_update example_store)) ! 0) = u_password (users example_store ! 0) \<and>
      u_phone (users (snd (PUT_profile example_env (Some ''alice'')
      example_update example_store)) ! 0) = u_phone (users example_store ! 0)"
    by simp
  from th len have j1: "Some ''alice'' \<noteq> Some (u_id (users example_store ! 1)) \<longrightarrow>
      users (snd (PUT_profile example_env (Some ''alice'') example_update example_store)) ! 1 =
      users example_store ! 1"
    by simp
  from v j0 j1 show ?thesis
    by (simp add: a b ida pwa pha idb)
qed

section \<open>Login\<close>

text \<open>
  C9. For every credential, \<^verbatim>\<open>authorize\<close> gives the same result, \<^verbatim>\<open>null\<close>, in a store where
  no user has the normalized phone and in a store where a user has it but the password
  does not match the stored hash.
\<close>

theorem authorize_failure_indistinguishable:
  assumes "getUserByPhone s1 (remove_ws (the_string cphone)) = None"
    and "getUserByPhone s2 (remove_ws (the_string cphone)) = Some u"
    and "\<not> bcrypt_compare e (the_string cpassword) (u_password u)"
  shows "authorize e cphone cpassword s1 = authorize e cphone cpassword s2 \<and>
         authorize e cphone cpassword s1 = None \<and> authorize e cphone cpassword s2 = None"
  using assms by (simp add: authorize_def Let_def)

theorem authorize_failure_indistinguishable_witness:
  "getUserByPhone empty_store (remove_ws ''555 123 4567'') = None \<and>
   getUserByPhone example_store (remove_ws ''555 123 4567'') =
     Some (example_user ''alice'' ''5551234567'' ''hash-a'' (Some 760000)) \<and>
   authorize example_env (Some ''555 123 4567'') (Some ''b'') empty_store = None \<and>
   authorize example_env (Some ''555 123 4567'') (Some ''b'') example_store = None \<and>
   authorize example_env (Some ''555 123 4567'') (Some ''a'') example_store =
     Some \<lparr>i_id = ''alice'', i_phone = ''5551234567'', i_name = ''alice''\<rparr>"
proof -
  have n: "remove_ws ''555 123 4567'' = ''5551234567''"
    by (simp add: remove_ws_def is_space_def)
  have a: "getUserByPhone empty_store (remove_ws (the_string (Some ''555 123 4567''))) = None"
    by (simp add: getUserByPhone_def getUsers_def empty_store_def)
  have b: "getUserByPhone example_store (remove_ws (the_string (Some ''555 123 4567''))) =
      Some (example_user ''alice'' ''5551234567'' ''hash-a'' (Some 760000))"
    by (simp add: n the_string_def getUserByPhone_def getUsers_def example_store_def
        example_user_def)
  have c: "\<not> bcrypt_compare example_env (the_string (Some ''b''))
      (u_password (example_user ''alice'' ''5551234567'' ''hash-a'' (Some 760000)))"
    by (simp add: example_env_def example_user_def the_string_def)
  have d: "authorize example_env (Some ''555 123 4567'') (Some ''a'') example_store =
     Some \<lparr>i_id = ''alice'', i_phone = ''5551234567'', i_name = ''alice''\<rparr>"
    using b by (simp add: authorize_def truthy_def the_string_def example_env_def
        example_user_def)
  from authorize_failure_indistinguishable [OF a b c] a b d show ?thesis
    by (simp add: the_string_def)
qed


section \<open>The heartbeat\<close>

lemma updateUser_users:
  "users (snd (updateUser t userId upd s)) =
     (case findIndex (\<lambda>u. u_id u = userId) (users s) of
        None \<Rightarrow> users s
      | Some i \<Rightarrow> (users s)[i := apply_updates (users s ! i) upd t])"
  by (simp add: updateUser_def getUsers_def Let_def split: option.splits)

lemma POST_status_snd:
  "truthy session \<Longrightarrow>
   snd (POST_status e session s) =
     snd (updateUser (clock e 1) (the_string session)
       \<lparr>upd_name = None, upd_status = None, upd_profilePicture = None,
        upd_lastSeen = Some (clock e 0)\<rparr> s)"
  by (simp add: POST_status_def split: prod.splits)

lemma heartbeat_update:
  "apply_updates u \<lparr>upd_name = None, upd_status = None, upd_profilePicture = None,
        upd_lastSeen = Some t0\<rparr> t1 = u\<lparr>u_lastSeen := Some t0, u_updatedAt := Some t1\<rparr>"
  by (simp add: apply_updates_def)

text \<open>
  C8, as amended. For every authenticated caller the heartbeat (POST /users/status)
  sets lastSeen and the updatedAt time stamp of the caller's user record (the first
  record with the caller's id) to the clock and changes nothing else: the id, phone,
  password, name, status, profilePicture and createdAt of that record, every other user
  record, the contacts and the messages are unchanged. When no record has the caller's
  id the store is unchanged.
\<close>

theorem heartbeat_sets_lastSeen_and_updatedAt:
  "fst (POST_status e session s) = (if truthy session then (200, SuccessBody) else unauthorized) \<and>
   contacts (snd (POST_status e session s)) = contacts s \<and>
   messages (snd (POST_status e session s)) = messages s \<and>
   length (users (snd (POST_status e session s))) = length (users s) \<and>
   (\<forall>i. truthy session \<and>
        findIndex (\<lambda>u. u_id u = the_string session) (users s) = Some i \<longrightarrow>
      i < length (users s) \<and> u_id (users s ! i) = the_string session \<and>
      users (snd (POST_status e session s)) =
        (users s)[i := (users s ! i)\<lparr>u_lastSeen := Some (clock e 0),
                                     u_updatedAt := Some (clock e 1)\<rparr>]) \<and>
   (\<not> truthy session \<or> findIndex (\<lambda>u. u_id u = the_string session) (users s) = None \<longrightarrow>
      snd (POST_status e session s) = s) \<and>
   (\<forall>j<length (users s).
      u_id (users (snd (POST_status e session s)) ! j) = u_id (users s ! j) \<and>
      u_phone (users (snd (POST_status e session s)) ! j) = u_phone (users s ! j) \<and>
      u_password (users (snd (POST_status e session s)) ! j) = u_password (users s ! j) \<and>
      u_name (users (snd (POST_status e session s)) ! j) = u_name (users s ! j) \<and>
      u_status (users (snd (POST_status e session s)) ! j) = u_status (users s ! j) \<and>
      u_profilePicture (users (snd (POST_status e session s)) ! j) =
        u_profilePicture (users s ! j) \<and>
      u_createdAt (users (snd (POST_status e session s)) ! j) = u_createdAt (users s ! j) \<and>
      (session \<noteq> Some (u_id (users s ! j)) \<longrightarrow>
         users (snd (POST_status e session s)) ! j = users s ! j))"
proof (cases "truthy session")
  case False
  then show ?thesis by (simp add: POST_status_def)
next
  case True
  have r: "fst (POST_status e session s) = (200, SuccessBody)"
    using True by (simp add: POST_status_def split: prod.splits)
  have sess: "\<And>x. session \<noteq> Some x \<Longrightarrow> x \<noteq> the_string session"
    using True by (auto simp: truthy_def the_string_def split: option.splits)
  show ?thesis
  proof (cases "findIndex (\<lambda>u. u_id u = the_string session) (users s)")
    case None
    then show ?thesis
      using True r by (simp add: POST_status_snd updateUser_None)
  next
    case (Some i)
    from findIndex_Some [OF Some]
    have i: "i < length (users s)" "u_id (users s ! i) = the_string session"
      by auto
    have s': "snd (POST_status e session s) =
        s\<lparr>users := (users s)[i := (users s ! i)\<lparr>u_lastSeen := Some (clock e 0),
                                     u_updatedAt := Some (clock e 1)\<rparr>]\<rparr>"
      using True by (simp add: POST_status_snd updateUser_Some [OF Some] heartbeat_update)
    show ?thesis
      unfolding s' using True r i Some sess
      by (auto simp: nth_list_update)
  qed
qed

text \<open>
  C8 as stated (the heartbeat changes nothing but lastSeen) fails: the record of the
  caller also gets a new updatedAt.
\<close>

theorem heartbeat_changes_updatedAt:
  "users (snd (POST_status example_env (Some ''alice'') example_store)) ! 0 =
     (users example_store ! 0)\<lparr>u_lastSeen := Some 1000000, u_updatedAt := Some 1000001\<rparr> \<and>
   users (snd (POST_status example_env (Some ''alice'') example_store)) ! 0 \<noteq>
     (users example_store ! 0)\<lparr>u_lastSeen := Some 1000000\<rparr> \<and>
   u_updatedAt (users example_store ! 0) = None \<and>
   u_updatedAt (users (snd (POST_status example_env (Some ''alice'') example_store)) ! 0) =
     Some 1000001"
  by (simp add: POST_status_def truthy_def the_string_def updateUser_def getUsers_def
      example_store_def example_user_def example_env_def apply_updates_def Let_def)

theorem heartbeat_sets_lastSeen_and_updatedAt_witness:
  "truthy (Some ''bob'') \<and>
   findIndex (\<lambda>u. u_id u = ''bob'') (users example_store) = Some 1 \<and>
   users (snd (POST_status example_env (Some ''bob'') example_store)) =
     [example_user ''alice'' ''5551234567'' ''hash-a'' (Some 760000),
      (example_user ''bob'' ''5559876543'' ''hash-b'' (Some 640000))
        \<lparr>u_lastSeen := Some 1000000, u_updatedAt := Some 1000001\<rparr>,
      example_user ''carol'' ''5550001111'' ''hash-c'' None]"
proof -
  have t: "truthy (Some ''bob'')" by (simp add: truthy_def)
  have f: "findIndex (\<lambda>u. u_id u = the_string (Some ''bob'')) (users example_store) = Some 1"
    by (simp add: the_string_def example_store_def example_user_def)
  from heartbeat_sets_lastSeen_and_updatedAt [of example_env "Some ''bob''" example_store] t f
  have "users (snd (POST_status example_env (Some ''bob'') example_store)) =
        (users example_store)[1 := (users example_store ! 1)\<lparr>u_lastSeen := Some (clock example_env 0),
                                     u_updatedAt := Some (clock example_env 1)\<rparr>]"
    by blast
  with t f show ?thesis
    by (simp add: the_string_def example_store_def example_env_def)
qed

section \<open>Sending a message\<close>

lemma trim_Nil: "trim [] = []"
  by (simp add: trim_def)

lemma truthy_Some: "truthy (Some x) = (x \<noteq> [])"
  by (simp add: truthy_def)

lemma truthy_iff: "truthy v = (\<exists>x. v = Some x \<and> x \<noteq> [])"
  by (cases v) (simp_all add: truthy_def)

text \<open>
  C1, as amended. For every authenticated POST /messages request: when the receiverId
  or the content is missing or the empty string, the request is rejected with status
  400 and the store is unchanged; when the receiverId is not empty and the content is
  not empty after trimming, one message is appended, with the trimmed content, an id
  made of the clock reading and the random suffix, the clock as time stamp and
  read = false, and it is returned with status 201. Nothing is said here about content
  that is white space only.
\<close>

theorem POST_messages_requires_fields_then_appends:
  assumes "caller \<noteq> []"
  shows
    "(req ''receiverId'' = None \<or> req ''receiverId'' = Some [] \<or>
      req ''content'' = None \<or> req ''content'' = Some [] \<longrightarrow>
        POST_messages e (Some caller) req s =
          ((400, ErrorBody ''Receiver ID and content are required''), s)) \<and>
     (\<forall>r c. req ''receiverId'' = Some r \<and> r \<noteq> [] \<and> req ''content'' = Some c \<and>
          trim c \<noteq> [] \<longrightarrow>
        POST_messages e (Some caller) req s =
          ((201, MessageBody
              \<lparr>m_id = new_id (clock e 0) (random e), m_senderId = caller,
               m_receiverId = r, m_content = trim c, m_timestamp = clock e 1,
               m_read = False\<rparr>),
           s\<lparr>messages := messages s @
              [\<lparr>m_id = new_id (clock e 0) (random e), m_senderId = caller,
                m_receiverId = r, m_content = trim c, m_timestamp = clock e 1,
                m_read = False\<rparr>]\<rparr>))"
proof -
  have a: "req ''receiverId'' = None \<or> req ''receiverId'' = Some [] \<or>
      req ''content'' = None \<or> req ''content'' = Some [] \<longrightarrow>
        POST_messages e (Some caller) req s =
          ((400, ErrorBody ''Receiver ID and content are required''), s)"
    using assms by (auto simp: POST_messages_def truthy_def)
  have b: "\<forall>r c. req ''receiverId'' = Some r \<and> r \<noteq> [] \<and> req ''content'' = Some c \<and>
          trim c \<noteq> [] \<longrightarrow>
        POST_messages e (Some caller) req s =
          ((201, MessageBody
              \<lparr>m_id = new_id (clock e 0) (random e), m_senderId = caller,
               m_receiverId = r, m_content = trim c, m_timestamp = clock e 1,
               m_read = False\<rparr>),
           s\<lparr>messages := messages s @
              [\<lparr>m_id = new_id (clock e 0) (random e), m_senderId = caller,
                m_receiverId = r, m_content = trim c, m_timestamp = clock e 1,
                m_read = False\<rparr>]\<rparr>)"
  proof (intro allI impI)
    fix r c
    assume h: "req ''receiverId'' = Some r \<and> r \<noteq> [] \<and> req ''content'' = Some c \<and> trim c \<noteq> []"
    then have "c \<noteq> []" using trim_Nil by auto
    with h assms show "POST_messages e (Some caller) req s =
          ((201, MessageBody
              \<lparr>m_id = new_id (clock e 0) (random e), m_senderId = caller,
               m_receiverId = r, m_content = trim c, m_timestamp = clock e 1,
               m_read = False\<rparr>),
           s\<lparr>messages := messages s @
              [\<lparr>m_id = new_id (clock e 0) (random e), m_senderId = caller,
                m_receiverId = r, m_content = trim c, m_timestamp = clock e 1,
                m_read = False\<rparr>]\<rparr>)"
      by (simp add: POST_messages_def truthy_def the_string_def createMessage_def
          getMessages_def Let_def)
  qed
  from a b show ?thesis by blast
qed

lemma new_id_example: "new_id 1000000 ''k3x9q0zab'' = ''1000000k3x9q0zab''"
  by (simp add: new_id_def toString_def digits_of.simps digit_char_def)

lemma trim_examples:
  "trim ''   '' = []" "trim '' hi  '' = ''hi''"
  "trim [CHR 0xA0] = []" "trim [CHR 0xA0, CHR ''h'', CHR ''i'', CHR 0xA0] = ''hi''"
  by (simp_all add: trim_def is_space_def)

text \<open>
  C1 as stated fails at two requests: content of three spaces is empty after trimming,
  yet the request is answered 201 and a message with empty content is appended; and a
  request with content \<^verbatim>\<open>hi\<close> and no receiverId is answered 400.
\<close>

theorem POST_messages_blank_content_and_missing_receiver:
  "trim ''   '' = [] \<and>
   POST_messages example_env (Some ''alice'')
       [''receiverId'' \<mapsto> ''bob'', ''content'' \<mapsto> ''   ''] example_store =
     ((201, MessageBody
         \<lparr>m_id = ''1000000k3x9q0zab'', m_senderId = ''alice'', m_receiverId = ''bob'',
          m_content = [], m_timestamp = 1000001, m_read = False\<rparr>),
      example_store\<lparr>messages := example_messages @
         [\<lparr>m_id = ''1000000k3x9q0zab'', m_senderId = ''alice'', m_receiverId = ''bob'',
           m_content = [], m_timestamp = 1000001, m_read = False\<rparr>]\<rparr>) \<and>
   trim ''hi'' \<noteq> [] \<and>
   POST_messages example_env (Some ''alice'') [''content'' \<mapsto> ''hi''] example_store =
     ((400, ErrorBody ''Receiver ID and content are required''), example_store)"
  by (simp add: POST_messages_def truthy_def the_string_def createMessage_def
      getMessages_def Let_def new_id_example trim_def is_space_def example_env_def
      example_store_def)

theorem POST_messages_requires_fields_then_appends_witness:
  "''alice'' \<noteq> [] \<and> trim '' hi  '' = ''hi'' \<and>
   POST_messages example_env (Some ''alice'')
       [''receiverId'' \<mapsto> ''bob'', ''content'' \<mapsto> '' hi  ''] example_store =
     ((201, MessageBody
         \<lparr>m_id = ''1000000k3x9q0zab'', m_senderId = ''alice'', m_receiverId = ''bob'',
          m_content = ''hi'', m_timestamp = 1000001, m_read = False\<rparr>),
      example_store\<lparr>messages := example_messages @
         [\<lparr>m_id = ''1000000k3x9q0zab'', m_senderId = ''alice'', m_receiverId = ''bob'',
           m_content = ''hi'', m_timestamp = 1000001, m_read = False\<rparr>]\<rparr>) \<and>
   trim [CHR 0xA0, CHR ''h'', CHR ''i'', CHR 0xA0] = ''hi'' \<and>
   POST_messages example_env (Some ''alice'')
       [''receiverId'' \<mapsto> ''bob'',
        ''content'' \<mapsto> [CHR 0xA0, CHR ''h'', CHR ''i'', CHR 0xA0]] example_store =
     ((201, MessageBody
         \<lparr>m_id = ''1000000k3x9q0zab'', m_senderId = ''alice'', m_receiverId = ''bob'',
          m_content = ''hi'', m_timestamp = 1000001, m_read = False\<rparr>),
      example_store\<lparr>messages := example_messages @
         [\<lparr>m_id = ''1000000k3x9q0zab'', m_senderId = ''alice'', m_receiverId = ''bob'',
           m_content = ''hi'', m_timestamp = 1000001, m_read = False\<rparr>]\<rparr>) \<and>
   POST_messages example_env (Some ''alice'')
       [''receiverId'' \<mapsto> ''bob'', ''content'' \<mapsto> []] example_store =
     ((400, ErrorBody ''Receiver ID and content are required''), example_store)"
proof -
  have c: "''alice'' \<noteq> []" by simp
  have t: "trim '' hi  '' = ''hi''" by (rule trim_examples)
  have tn: "trim [CHR 0xA0, CHR ''h'', CHR ''i'', CHR 0xA0] = ''hi''" by (rule trim_examples)
  have m: "messages example_store = example_messages" by (simp add: example_store_def)
  have k: "clock example_env 0 = 1000000" "clock example_env (Suc 0) = 1000001"
    "random example_env = ''k3x9q0zab''"
    by (simp_all add: example_env_def)
  from POST_messages_requires_fields_then_appends [OF c, of
      "[''receiverId'' \<mapsto> ''bob'', ''content'' \<mapsto> '' hi  '']" example_env example_store]
  have ok: "POST_messages example_env (Some ''alice'')
       [''receiverId'' \<mapsto> ''bob'', ''content'' \<mapsto> '' hi  ''] example_store =
     ((201, MessageBody
         \<lparr>m_id = ''1000000k3x9q0zab'', m_senderId = ''alice'', m_receiverId = ''bob'',
          m_content = ''hi'', m_timestamp = 1000001, m_read = False\<rparr>),
      example_store\<lparr>messages := example_messages @
         [\<lparr>m_id = ''1000000k3x9q0zab'', m_senderId = ''alice'', m_receiverId = ''bob'',
           m_content = ''hi'', m_timestamp = 1000001, m_read = False\<rparr>]\<rparr>)"
    by (simp add: t m k new_id_example)
  from POST_messages_requires_fields_then_appends [OF c, of
      "[''receiverId'' \<mapsto> ''bob'', ''content'' \<mapsto> []]" example_env example_store]
  have bad: "POST_messages example_env (Some ''alice'')
       [''receiverId'' \<mapsto> ''bob'', ''content'' \<mapsto> []] example_store =
     ((400, ErrorBody ''Receiver ID and content are required''), example_store)"
    by simp
  from POST_messages_requires_fields_then_appends [OF c, of
      "[''receiverId'' \<mapsto> ''bob'',
        ''content'' \<mapsto> [CHR 0xA0, CHR ''h'', CHR ''i'', CHR 0xA0]]" example_env example_store]
  have nb: "POST_messages example_env (Some ''alice'')
       [''receiverId'' \<mapsto> ''bob'',
        ''content'' \<mapsto> [CHR 0xA0, CHR ''h'', CHR ''i'', CHR 0xA0]] example_store =
     ((201, MessageBody
         \<lparr>m_id = ''1000000k3x9q0zab'', m_senderId = ''alice'', m_receiverId = ''bob'',
          m_content = ''hi'', m_timestamp = 1000001, m_read = False\<rparr>),
      example_store\<lparr>messages := example_messages @
         [\<lparr>m_id = ''1000000k3x9q0zab'', m_senderId = ''alice'', m_receiverId = ''bob'',
           m_content = ''hi'', m_timestamp = 1000001, m_read = False\<rparr>]\<rparr>)"
    by (simp add: tn m k new_id_example)
  from c t tn ok nb bad show ?thesis by blast
qed

section \<open>Passwords in response bodies\<close>

lemma body_password_UserBody: "body_password (UserBody p) = None"
  by simp

lemma add_by_phone_no_password:
  "body_password (snd (fst (add_by_phone e caller phone name s))) = None"
  by (simp add: add_by_phone_def Let_def split: option.splits prod.splits)

lemma other_routes_no_password:
  "body_password (snd (fst (POST_register e req s))) = None"
  "body_password (snd (fst (GET_user session ident s))) = None"
  "body_password (snd (fst (GET_profile session s))) = None"
  "body_password (snd (fst (PUT_profile e session req s))) = None"
  "body_password (snd (fst (GET_contacts e session s))) = None"
  "\<not> truthy (req ''contactId'') \<Longrightarrow>
     body_password (snd (fst (POST_contacts e session req s))) = None"
  by (simp_all add: POST_register_def GET_user_def GET_profile_def PUT_profile_def
      GET_contacts_def POST_contacts_def add_by_phone_no_password unauthorized_def Let_def
      split: option.splits prod.splits)

text \<open>
  C2. No response of the routes that return a user or contact should carry a stored
  password. The routes above strip it; the route that adds a contact by id does not:
  when alice adds carol by id, the body returned holds carol's stored password hash.
\<close>

theorem POST_contacts_by_id_returns_password:
  "getUserById example_store ''carol'' =
     Some (example_user ''carol'' ''5550001111'' ''hash-c'' None) \<and>
   fst (POST_contacts example_env (Some ''alice'') [''contactId'' \<mapsto> ''carol''] example_store) =
     (201, ContactUserBody (example_user ''carol'' ''5550001111'' ''hash-c'' None)) \<and>
   body_password (snd (fst (POST_contacts example_env (Some ''alice'')
      [''contactId'' \<mapsto> ''carol''] example_store))) = Some ''hash-c''"
  by (simp add: POST_contacts_def add_by_id_def truthy_def the_string_def getUserById_def
      getUsers_def example_store_def example_user_def)

section \<open>The contacts file\<close>

lemma addContact_frame:
  "users (addContact t userId contactId s) = users s \<and>
   messages (addContact t userId contactId s) = messages s"
  by (simp add: addContact_def Let_def)

lemma addContact_present:
  "list_ex (\<lambda>c. c_contactId c = contactId) (getUserContacts s userId) \<Longrightarrow>
   addContact t userId contactId s = s"
  by (simp add: addContact_def getUserContacts_def Let_def)

lemma addContact_absent:
  "\<not> list_ex (\<lambda>c. c_contactId c = contactId) (getUserContacts s userId) \<Longrightarrow>
   addContact t userId contactId s =
     s\<lparr>contacts := (contacts s)(userId \<mapsto> getUserContacts s userId @
        [\<lparr>c_userId = userId, c_contactId = contactId, c_addedAt = t\<rparr>])\<rparr>"
  by (simp add: addContact_def getUserContacts_def getContacts_def Let_def)

lemma addContact_inv:
  assumes "contacts_inv (contacts s)"
  shows "contacts_inv (contacts (addContact t userId contactId s))"
proof (cases "list_ex (\<lambda>c. c_contactId c = contactId) (getUserContacts s userId)")
  case True
  with assms show ?thesis by (simp add: addContact_present)
next
  case False
  have old: "distinct (map c_contactId (getUserContacts s userId)) \<and>
      (\<forall>c\<in>set (getUserContacts s userId). c_userId c = userId)"
    using assms
    by (auto simp: contacts_inv_def getUserContacts_def getContacts_def split: option.splits)
  from False have new: "contactId \<notin> c_contactId ` set (getUserContacts s userId)"
    by (auto simp: list_ex_iff)
  show ?thesis
    using assms old new
    by (auto simp: addContact_absent [OF False] contacts_inv_def)
qed

lemma createUser_frame:
  "contacts (snd (createUser a r b f s)) = contacts s \<and>
   messages (snd (createUser a r b f s)) = messages s \<and>
   users (snd (createUser a r b f s)) = users s @ [fst (createUser a r b f s)]"
  by (simp add: createUser_def getUsers_def Let_def)

lemma add_by_id_inv:
  "contacts_inv (contacts s) \<Longrightarrow> contacts_inv (contacts (snd (add_by_id e caller cid s)))"
  by (simp add: add_by_id_def addContact_inv split: option.splits)

lemma add_by_phone_invalid:
  "\<not> phoneRegex (remove_ws phone) \<Longrightarrow>
   add_by_phone e caller phone name s =
     ((400, ErrorBody ''Invalid phone number format. Please enter 10-15 digits.''), s)"
  by (simp add: add_by_phone_def)

lemma add_by_phone_existing:
  "phoneRegex (remove_ws phone) \<Longrightarrow> getUserByPhone s (remove_ws phone) = Some u \<Longrightarrow>
   add_by_phone e caller phone name s =
     (if u_id u = caller then ((400, ErrorBody ''Cannot add yourself as a contact''), s)
      else if list_ex (\<lambda>c. c_contactId c = u_id u) (getUserContacts s caller)
      then ((400, ErrorBody ''This contact is already in your contact list''), s)
      else ((201, ContactBody (withoutPassword u)), addContact (clock e 0) caller (u_id u) s))"
  by (simp add: add_by_phone_def)

lemma createUser_placeholder:
  "createUser (clock e 0) (random e) (clock e 1)
      (phone_password_name (remove_ws phone) [] (trim name)) s =
     (placeholder_user e phone name, s\<lparr>users := users s @ [placeholder_user e phone name]\<rparr>)"
  by (simp add: createUser_def placeholder_user_def phone_password_name_def or_empty_def
      getUsers_def Let_def)

lemma add_by_phone_new:
  "phoneRegex (remove_ws phone) \<Longrightarrow> getUserByPhone s (remove_ws phone) = None \<Longrightarrow>
   add_by_phone e caller phone name s =
     (if u_id (placeholder_user e phone name) = caller
      then ((400, ErrorBody ''Cannot add yourself as a contact''),
            s\<lparr>users := users s @ [placeholder_user e phone name]\<rparr>)
      else if list_ex (\<lambda>c. c_contactId c = u_id (placeholder_user e phone name))
                (getUserContacts (s\<lparr>users := users s @ [placeholder_user e phone name]\<rparr>) caller)
      then ((400, ErrorBody ''This contact is already in your contact list''),
            s\<lparr>users := users s @ [placeholder_user e phone name]\<rparr>)
      else ((201, ContactBody (withoutPassword (placeholder_user e phone name))),
            addContact (clock e 2) caller (u_id (placeholder_user e phone name))
              (s\<lparr>users := users s @ [placeholder_user e phone name]\<rparr>)))"
  using createUser_placeholder [of e phone name s]
  by (simp add: add_by_phone_def)

lemma add_by_phone_inv:
  assumes "contacts_inv (contacts s)"
  shows "contacts_inv (contacts (snd (add_by_phone e caller phone name s)))"
proof (cases "phoneRegex (remove_ws phone)")
  case False
  with assms show ?thesis by (simp add: add_by_phone_invalid)
next
  case True
  show ?thesis
  proof (cases "getUserByPhone s (remove_ws phone)")
    case None
    have "contacts_inv (contacts (s\<lparr>users := users s @ [placeholder_user e phone name]\<rparr>))"
      using assms by simp
    then show ?thesis
      using assms by (simp add: add_by_phone_new [OF True None] addContact_inv)
  next
    case (Some u)
    show ?thesis
      using assms by (simp add: add_by_phone_existing [OF True Some] addContact_inv)
  qed
qed

lemma POST_contacts_inv:
  "contacts_inv (contacts s) \<Longrightarrow> contacts_inv (contacts (snd (POST_contacts e session req s)))"
  by (simp add: POST_contacts_def Let_def add_by_id_inv add_by_phone_inv)

lemma POST_register_contacts: "contacts (snd (POST_register e req s)) = contacts s"
  by (simp add: POST_register_def Let_def createUser_def split: option.splits prod.splits)

lemma POST_messages_contacts: "contacts (snd (POST_messages e session req s)) = contacts s"
  by (simp add: POST_messages_def Let_def createMessage_def split: prod.splits)

lemma GET_messages_contacts: "contacts (snd (GET_messages session p s)) = contacts s"
  by (simp add: GET_messages_def Let_def markMessagesAsRead_def)

lemma updateUser_contacts: "contacts (snd (updateUser t u upd s)) = contacts s"
  by (simp add: updateUser_def Let_def split: option.splits)

lemma POST_status_contacts: "contacts (snd (POST_status e session s)) = contacts s"
proof (cases "truthy session")
  case True
  then show ?thesis by (simp add: POST_status_snd updateUser_contacts)
next
  case False
  then show ?thesis by (simp add: POST_status_def)
qed

lemma PUT_profile_contacts: "contacts (snd (PUT_profile e session req s)) = contacts s"
proof -
  have "snd (PUT_profile e session req s) = s \<or>
      snd (PUT_profile e session req s) =
        snd (updateUser (clock e 0) (the_string session)
          \<lparr>upd_name = req ''name'', upd_status = req ''status'',
           upd_profilePicture = req ''profilePicture'', upd_lastSeen = None\<rparr> s)"
    by (simp add: PUT_profile_def split: prod.splits option.splits)
  then show ?thesis
    by (auto simp: updateUser_contacts)
qed

lemma reachable_contacts_inv: "reachable s \<Longrightarrow> contacts_inv (contacts s)"
proof (induction rule: reachable.induct)
  case initial
  show ?case by (simp add: contacts_inv_def empty_store_def)
next
  case (register s e req)
  then show ?case by (simp add: POST_register_contacts)
next
  case (add_contact s e session req)
  from add_contact.IH show ?case by (rule POST_contacts_inv)
next
  case (send s e session req)
  then show ?case by (simp add: POST_messages_contacts)
next
  case (fetch s session userIdParam)
  then show ?case by (simp add: GET_messages_contacts)
next
  case (heartbeat s e session)
  then show ?case by (simp add: POST_status_contacts)
next
  case (update_profile s e session req)
  then show ?case by (simp add: PUT_profile_contacts)
qed

lemma contacts_inv_unique:
  assumes inv: "contacts_inv cs"
    and l1: "cs k1 = Some l1" and l2: "cs k2 = Some l2"
    and i: "i < length l1" and j: "j < length l2"
    and u: "c_userId (l1 ! i) = c_userId (l2 ! j)"
    and c: "c_contactId (l1 ! i) = c_contactId (l2 ! j)"
  shows "k1 = k2 \<and> i = j"
proof -
  from inv l1 i have "c_userId (l1 ! i) = k1" by (auto simp: contacts_inv_def)
  moreover from inv l2 j have "c_userId (l2 ! j) = k2" by (auto simp: contacts_inv_def)
  ultimately have k: "k1 = k2" using u by simp
  with l1 l2 have l: "l1 = l2" by simp
  from inv l1 have d: "distinct (map c_contactId l1)" by (auto simp: contacts_inv_def)
  from c l i j have e: "map c_contactId l1 ! i = map c_contactId l1 ! j" by simp
  from d i j l have "(map c_contactId l1 ! i = map c_contactId l1 ! j) = (i = j)"
    by (intro nth_eq_iff_index_eq) simp_all
  with e have "i = j" by simp
  with k show ?thesis by simp
qed

lemma add_by_id_cases:
  "(getUserById s target = None \<longrightarrow>
      add_by_id e owner target s = ((404, ErrorBody ''User not found''), s)) \<and>
   (getUserById s target \<noteq> None \<and> target = owner \<longrightarrow>
      add_by_id e owner target s = ((400, ErrorBody ''Cannot add yourself as a contact''), s)) \<and>
   (\<forall>u. getUserById s target = Some u \<and> target \<noteq> owner \<and>
        list_ex (\<lambda>c. c_contactId c = target) (getUserContacts s owner) \<longrightarrow>
      add_by_id e owner target s = ((201, ContactUserBody u), s)) \<and>
   (\<forall>u. getUserById s target = Some u \<and> target \<noteq> owner \<and>
        \<not> list_ex (\<lambda>c. c_contactId c = target) (getUserContacts s owner) \<longrightarrow>
      add_by_id e owner target s =
        ((201, ContactUserBody u),
         s\<lparr>contacts := (contacts s)(owner \<mapsto> getUserContacts s owner @
            [\<lparr>c_userId = owner, c_contactId = target, c_addedAt = clock e 0\<rparr>])\<rparr>))"
  by (auto simp: add_by_id_def addContact_present addContact_absent)

lemma add_by_id_twice:
  "add_by_id e' owner target (snd (add_by_id e owner target s)) =
     (fst (add_by_id e owner target s), snd (add_by_id e owner target s))"
proof (cases "getUserById s target")
  case None
  then show ?thesis by (simp add: add_by_id_def)
next
  case (Some u)
  show ?thesis
  proof (cases "target = owner")
    case True
    with Some show ?thesis by (simp add: add_by_id_def)
  next
    case False
    have g: "getUserById (addContact t owner target s) target = Some u" for t
      using Some by (simp add: getUserById_def getUsers_def addContact_frame)
    have p: "list_ex (\<lambda>c. c_contactId c = target)
        (getUserContacts (addContact t owner target s) owner)" for t
      by (cases "list_ex (\<lambda>c. c_contactId c = target) (getUserContacts s owner)")
        (simp_all add: addContact_present addContact_absent getUserContacts_def getContacts_def)
    show ?thesis
      using Some False g p
      by (simp add: add_by_id_def addContact_present)
  qed
qed

text \<open>
  C6. In every store the handlers can reach from the empty one, a pair of owner and
  contact occurs at most once in the contacts file. Adding a contact by id answers 404
  when no user has the target id, 400 when the target exists and is the caller, and 201
  otherwise;
  when the edge is already there the store is unchanged, otherwise one edge is appended;
  and repeating the request gives the same answer and leaves the store as the first
  request left it.
\<close>

theorem contacts_unique_and_add_by_id_idempotent:
  "(reachable s \<longrightarrow>
      (\<forall>k1 k2 l1 l2 i j.
          contacts s k1 = Some l1 \<and> contacts s k2 = Some l2 \<and>
          i < length l1 \<and> j < length l2 \<and>
          c_userId (l1 ! i) = c_userId (l2 ! j) \<and>
          c_contactId (l1 ! i) = c_contactId (l2 ! j) \<longrightarrow>
          k1 = k2 \<and> i = j)) \<and>
   (owner \<noteq> [] \<and> target \<noteq> [] \<and> req ''contactId'' = Some target \<longrightarrow>
      (getUserById s target = None \<longrightarrow>
         POST_contacts e (Some owner) req s = ((404, ErrorBody ''User not found''), s)) \<and>
      (getUserById s target \<noteq> None \<and> target = owner \<longrightarrow>
         POST_contacts e (Some owner) req s =
           ((400, ErrorBody ''Cannot add yourself as a contact''), s)) \<and>
      (\<forall>u. getUserById s target = Some u \<and> target \<noteq> owner \<and>
           list_ex (\<lambda>c. c_contactId c = target) (getUserContacts s owner) \<longrightarrow>
         POST_contacts e (Some owner) req s = ((201, ContactUserBody u), s)) \<and>
      (\<forall>u. getUserById s target = Some u \<and> target \<noteq> owner \<and>
           \<not> list_ex (\<lambda>c. c_contactId c = target) (getUserContacts s owner) \<longrightarrow>
         POST_contacts e (Some owner) req s =
           ((201, ContactUserBody u),
            s\<lparr>contacts := (contacts s)(owner \<mapsto> getUserContacts s owner @
               [\<lparr>c_userId = owner, c_contactId = target, c_addedAt = clock e 0\<rparr>])\<rparr>)) \<and>
      POST_contacts e' (Some owner) req (snd (POST_contacts e (Some owner) req s)) =
        (fst (POST_contacts e (Some owner) req s), snd (POST_contacts e (Some owner) req s)))"
proof -
  have a: "reachable s \<longrightarrow>
      (\<forall>k1 k2 l1 l2 i j.
          contacts s k1 = Some l1 \<and> contacts s k2 = Some l2 \<and>
          i < length l1 \<and> j < length l2 \<and>
          c_userId (l1 ! i) = c_userId (l2 ! j) \<and>
          c_contactId (l1 ! i) = c_contactId (l2 ! j) \<longrightarrow>
          k1 = k2 \<and> i = j)"
    using contacts_inv_unique [OF reachable_contacts_inv] by blast
  have b: "owner \<noteq> [] \<and> target \<noteq> [] \<and> req ''contactId'' = Some target \<longrightarrow>
      (getUserById s target = None \<longrightarrow>
         POST_contacts e (Some owner) req s = ((404, ErrorBody ''User not found''), s)) \<and>
      (getUserById s target \<noteq> None \<and> target = owner \<longrightarrow>
         POST_contacts e (Some owner) req s =
           ((400, ErrorBody ''Cannot add yourself as a contact''), s)) \<and>
      (\<forall>u. getUserById s target = Some u \<and> target \<noteq> owner \<and>
           list_ex (\<lambda>c. c_contactId c = target) (getUserContacts s owner) \<longrightarrow>
         POST_contacts e (Some owner) req s = ((201, ContactUserBody u), s)) \<and>
      (\<forall>u. getUserById s target = Some u \<and> target \<noteq> owner \<and>
           \<not> list_ex (\<lambda>c. c_contactId c = target) (getUserContacts s owner) \<longrightarrow>
         POST_contacts e (Some owner) req s =
           ((201, ContactUserBody u),
            s\<lparr>contacts := (contacts s)(owner \<mapsto> getUserContacts s owner @
               [\<lparr>c_userId = owner, c_contactId = target, c_addedAt = clock e 0\<rparr>])\<rparr>)) \<and>
      POST_contacts e' (Some owner) req (snd (POST_contacts e (Some owner) req s)) =
        (fst (POST_contacts e (Some owner) req s), snd (POST_contacts e (Some owner) req s))"
  proof (intro impI)
    assume h: "owner \<noteq> [] \<and> target \<noteq> [] \<and> req ''contactId'' = Some target"
    have p: "POST_contacts e1 (Some owner) req s1 = add_by_id e1 owner target s1" for e1 s1
      using h by (simp add: POST_contacts_def truthy_def the_string_def)
    from add_by_id_cases [of s target e owner] add_by_id_twice [of e' owner target e s]
    show "(getUserById s target = None \<longrightarrow>
         POST_contacts e (Some owner) req s = ((404, ErrorBody ''User not found''), s)) \<and>
      (getUserById s target \<noteq> None \<and> target = owner \<longrightarrow>
         POST_contacts e (Some owner) req s =
           ((400, ErrorBody ''Cannot add yourself as a contact''), s)) \<and>
      (\<forall>u. getUserById s target = Some u \<and> target \<noteq> owner \<and>
           list_ex (\<lambda>c. c_contactId c = target) (getUserContacts s owner) \<longrightarrow>
         POST_contacts e (Some owner) req s = ((201, ContactUserBody u), s)) \<and>
      (\<forall>u. getUserById s target = Some u \<and> target \<noteq> owner \<and>
           \<not> list_ex (\<lambda>c. c_contactId c = target) (getUserContacts s owner) \<longrightarrow>
         POST_contacts e (Some owner) req s =
           ((201, ContactUserBody u),
            s\<lparr>contacts := (contacts s)(owner \<mapsto> getUserContacts s owner @
               [\<lparr>c_userId = owner, c_contactId = target, c_addedAt = clock e 0\<rparr>])\<rparr>)) \<and>
      POST_contacts e' (Some owner) req (snd (POST_contacts e (Some owner) req s)) =
        (fst (POST_contacts e (Some owner) req s), snd (POST_contacts e (Some owner) req s))"
      unfolding p by blast
  qed
  from a b show ?thesis by (rule conjI)
qed

section \<open>A store built by the handlers\<close>

lemma new_id_later: "new_id 2000000 ''bbbbbbbbb'' = ''2000000bbbbbbbbb''"
  by (simp add: new_id_def toString_def digits_of.simps digit_char_def)

lemma remove_ws_examples:
  "remove_ws ''555 123 4567'' = ''5551234567''"
  "remove_ws ''5559876543'' = ''5559876543''"
  "remove_ws ''555 000 2222'' = ''5550002222''"
  "remove_ws (CHR 0xA0 # ''555'' @ CHR 0xA0 # ''0002222'') = ''5550002222''"
  by (simp_all add: remove_ws_def is_space_def)

lemma phoneRegex_examples:
  "phoneRegex ''5551234567''" "phoneRegex ''5559876543''" "phoneRegex ''5550002222''"
  by (simp_all add: phoneRegex_def is_digit_def)

lemma two_users_value:
  "two_users =
     \<lparr>users =
        [\<lparr>u_id = ''1000000k3x9q0zab'', u_phone = ''5551234567'', u_password = ''hash-a'',
          u_name = ''Alice'', u_status = Some [], u_profilePicture = Some [],
          u_createdAt = 1000001, u_updatedAt = None, u_lastSeen = None\<rparr>,
         \<lparr>u_id = ''2000000bbbbbbbbb'', u_phone = ''5559876543'', u_password = ''hash-b'',
          u_name = ''Bob'', u_status = Some [], u_profilePicture = Some [],
          u_createdAt = 2000001, u_updatedAt = None, u_lastSeen = None\<rparr>],
      contacts = Map.empty, messages = []\<rparr>"
  by (simp add: two_users_def POST_register_def register_alice_def register_bob_def
      truthy_def the_string_def remove_ws_examples phoneRegex_examples getUserByPhone_def
      getUsers_def createUser_def phone_password_name_def or_empty_def Let_def
      example_env_def later_env_def empty_store_def new_id_example new_id_later)

lemma alice_knows_bob_value:
  "alice_knows_bob =
     \<lparr>users =
        [\<lparr>u_id = ''1000000k3x9q0zab'', u_phone = ''5551234567'', u_password = ''hash-a'',
          u_name = ''Alice'', u_status = Some [], u_profilePicture = Some [],
          u_createdAt = 1000001, u_updatedAt = None, u_lastSeen = None\<rparr>,
         \<lparr>u_id = ''2000000bbbbbbbbb'', u_phone = ''5559876543'', u_password = ''hash-b'',
          u_name = ''Bob'', u_status = Some [], u_profilePicture = Some [],
          u_createdAt = 2000001, u_updatedAt = None, u_lastSeen = None\<rparr>],
      contacts = [''1000000k3x9q0zab'' \<mapsto>
        [\<lparr>c_userId = ''1000000k3x9q0zab'', c_contactId = ''2000000bbbbbbbbb'',
          c_addedAt = 1000000\<rparr>]],
      messages = []\<rparr>"
  by (simp add: alice_knows_bob_def two_users_value POST_contacts_def add_by_id_def
      truthy_def the_string_def getUserById_def getUsers_def addContact_def getContacts_def
      Let_def example_env_def)

lemma reachable_alice_knows_bob: "reachable alice_knows_bob"
  unfolding alice_knows_bob_def two_users_def
  by (intro reachable.intros)

theorem contacts_unique_and_add_by_id_idempotent_witness:
  "reachable alice_knows_bob \<and>
   contacts alice_knows_bob ''1000000k3x9q0zab'' =
     Some [\<lparr>c_userId = ''1000000k3x9q0zab'', c_contactId = ''2000000bbbbbbbbb'',
            c_addedAt = 1000000\<rparr>] \<and>
   POST_contacts later_env (Some ''1000000k3x9q0zab'')
       [''contactId'' \<mapsto> ''2000000bbbbbbbbb''] alice_knows_bob =
     ((201, ContactUserBody
        \<lparr>u_id = ''2000000bbbbbbbbb'', u_phone = ''5559876543'', u_password = ''hash-b'',
          u_name = ''Bob'', u_status = Some [], u_profilePicture = Some [],
          u_createdAt = 2000001, u_updatedAt = None, u_lastSeen = None\<rparr>),
      alice_knows_bob) \<and>
   POST_contacts later_env (Some ''1000000k3x9q0zab'')
       [''contactId'' \<mapsto> ''nobody''] alice_knows_bob =
     ((404, ErrorBody ''User not found''), alice_knows_bob) \<and>
   POST_contacts later_env (Some ''1000000k3x9q0zab'')
       [''contactId'' \<mapsto> ''1000000k3x9q0zab''] alice_knows_bob =
     ((400, ErrorBody ''Cannot add yourself as a contact''), alice_knows_bob)"
proof -
  let ?alice = "''1000000k3x9q0zab''" and ?bob = "''2000000bbbbbbbbb''"
  let ?edge = "\<lparr>c_userId = ?alice, c_contactId = ?bob, c_addedAt = 1000000\<rparr>"
  have r: "reachable alice_knows_bob" by (rule reachable_alice_knows_bob)
  have c: "contacts alice_knows_bob ?alice = Some [?edge]"
    by (simp add: alice_knows_bob_value)
  have gb: "getUserById alice_knows_bob ?bob =
      Some \<lparr>u_id = ''2000000bbbbbbbbb'', u_phone = ''5559876543'', u_password = ''hash-b'',
          u_name = ''Bob'', u_status = Some [], u_profilePicture = Some [],
          u_createdAt = 2000001, u_updatedAt = None, u_lastSeen = None\<rparr>"
    and gn: "getUserById alice_knows_bob ''nobody'' = None"
    and ga: "getUserById alice_knows_bob ?alice \<noteq> None"
    and ex: "list_ex (\<lambda>c. c_contactId c = ?bob) (getUserContacts alice_knows_bob ?alice)"
    by (simp_all add: alice_knows_bob_value getUserById_def getUsers_def getUserContacts_def
        getContacts_def)
  from contacts_unique_and_add_by_id_idempotent [where s = alice_knows_bob and owner = ?alice
      and target = ?bob and req = "[''contactId'' \<mapsto> ?bob]" and e = later_env] gb ex
  have ok: "POST_contacts later_env (Some ?alice) [''contactId'' \<mapsto> ?bob] alice_knows_bob =
     ((201, ContactUserBody
        \<lparr>u_id = ''2000000bbbbbbbbb'', u_phone = ''5559876543'', u_password = ''hash-b'',
          u_name = ''Bob'', u_status = Some [], u_profilePicture = Some [],
          u_createdAt = 2000001, u_updatedAt = None, u_lastSeen = None\<rparr>),
      alice_knows_bob)"
    by simp
  from contacts_unique_and_add_by_id_idempotent [where s = alice_knows_bob and owner = ?alice
      and target = "''nobody''" and req = "[''contactId'' \<mapsto> ''nobody'']" and e = later_env] gn
  have nf: "POST_contacts later_env (Some ?alice) [''contactId'' \<mapsto> ''nobody''] alice_knows_bob =
     ((404, ErrorBody ''User not found''), alice_knows_bob)"
    by simp
  from contacts_unique_and_add_by_id_idempotent [where s = alice_knows_bob and owner = ?alice
      and target = ?alice and req = "[''contactId'' \<mapsto> ?alice]" and e = later_env] ga
  have self: "POST_contacts later_env (Some ?alice) [''contactId'' \<mapsto> ?alice] alice_knows_bob =
     ((400, ErrorBody ''Cannot add yourself as a contact''), alice_knows_bob)"
    by simp
  from r c ok nf self show ?thesis by blast
qed

section \<open>Adding a contact by phone\<close>







end
